theory Spec2Isabelle
  imports Complex_Main
begin

section \<open>Python values\<close>

subsection \<open>Binary64 floating point\<close>

text \<open>
  A Python \<open>float\<close> is an IEEE 754 binary64 number.  A finite float is modelled by the
  rational number it denotes, and every arithmetic operation on floats is the exact
  operation followed by \<open>fl\<close>, rounding to the nearest binary64 number with ties to the
  even significand.  A float literal such as \<open>0.15\<close> is \<open>fl (15 / 100)\<close>.  Subnormal
  numbers are covered (the exponent of the last place never drops below \<open>-1074\<close>);
  infinities and NaN are not values of the model: the scores, weights and probabilities
  of the URL aggregation stay far below \<open>2 ^ 1024\<close>, and the APK scoring, whose detection
  counts come from outside, has its overflow modelled as the \<open>OverflowError\<close> it ends in.

  Exact rational arithmetic would not do: Python evaluates
  \<open>int((1 - 0.15) * 13 + 0.15 * 13)\<close> to \<open>12\<close>, not \<open>13\<close>.
\<close>

type_synonym pyfloat = rat

text \<open>\<open>up2 x\<close> counts the halvings that bring \<open>x \<ge> 1\<close> below \<open>2\<close>.\<close>

function up2 :: "rat \<Rightarrow> nat" where
  "up2 x = (if x < 2 then 0 else Suc (up2 (x / 2)))"
  by pat_completeness auto
termination
proof (relation "measure (\<lambda>x. nat \<lfloor>x\<rfloor>)")
  show "wf (measure (\<lambda>x::rat. nat \<lfloor>x\<rfloor>))" by simp
next
  fix x :: rat
  assume "\<not> x < 2"
  then have "x / 2 \<le> x - 1" by simp
  then have "\<lfloor>x / 2\<rfloor> \<le> \<lfloor>x - 1\<rfloor>" by (rule floor_mono)
  moreover have "0 < \<lfloor>x\<rfloor>" using \<open>\<not> x < 2\<close> by simp
  ultimately show "(x / 2, x) \<in> measure (\<lambda>x. nat \<lfloor>x\<rfloor>)" by simp
qed

text \<open>\<open>down2 x\<close> counts the doublings that bring \<open>0 < x < 1\<close> up to \<open>1\<close>.\<close>

function down2 :: "rat \<Rightarrow> nat" where
  "down2 x = (if 1 \<le> x \<or> x \<le> 0 then 0 else Suc (down2 (2 * x)))"
  by pat_completeness auto
termination
proof (relation "measure (\<lambda>x. nat \<lceil>1 / x\<rceil>)")
  show "wf (measure (\<lambda>x::rat. nat \<lceil>1 / x\<rceil>))" by simp
next
  fix x :: rat
  assume "\<not> (1 \<le> x \<or> x \<le> 0)"
  then have x: "0 < x" "x < 1" by simp_all
  define t where "t = 1 / x"
  have t: "1 < t" using x by (simp add: t_def)
  then have c: "2 \<le> \<lceil>t\<rceil>" by (simp add: le_ceiling_iff)
  have "t \<le> of_int \<lceil>t\<rceil>" by simp
  then have "t / 2 \<le> of_int \<lceil>t\<rceil> / 2" by simp
  also have "\<dots> \<le> of_int (\<lceil>t\<rceil> - 1)" using c by simp
  finally have h: "\<lceil>t / 2\<rceil> \<le> \<lceil>t\<rceil> - 1" by (rule ceiling_le)
  have e: "1 / (2 * x) = t / 2" by (simp add: t_def)
  have "\<lceil>1 / (2 * x)\<rceil> = \<lceil>t / 2\<rceil>" by (simp only: e)
  moreover have "\<lceil>1 / x\<rceil> = \<lceil>t\<rceil>" by (simp only: t_def)
  ultimately have "nat \<lceil>1 / (2 * x)\<rceil> < nat \<lceil>1 / x\<rceil>" using h c by linarith
  then show "(2 * x, x) \<in> measure (\<lambda>x. nat \<lceil>1 / x\<rceil>)"
    by (simp only: in_measure)
qed

declare up2.simps [simp del] down2.simps [simp del]

text \<open>The binary exponent of a positive number: \<open>2 powi ilog2 x \<le> x < 2 powi (ilog2 x + 1)\<close>.\<close>

definition ilog2 :: "rat \<Rightarrow> int" where
  "ilog2 x = (if 1 \<le> x then int (up2 x) else - int (down2 x))"

text \<open>Rounding to the nearest integer, ties to even.\<close>

definition rne :: "rat \<Rightarrow> int" where
  "rne y = (let f = \<lfloor>y\<rfloor>; d = y - of_int f
            in if d < 1 / 2 then f else if 1 / 2 < d then f + 1
               else if even f then f else f + 1)"

text \<open>The unit in the last place of the 53-bit significand, exponent at least \<open>-1022\<close>.\<close>

definition uexp :: "rat \<Rightarrow> int" where
  "uexp x = max (ilog2 x) (- 1022)"

definition ulp :: "rat \<Rightarrow> rat" where
  "ulp x = 2 powi (uexp x - 52)"

definition flpos :: "rat \<Rightarrow> rat" where
  "flpos x = of_int (rne (x / ulp x)) * ulp x"

definition fl :: "rat \<Rightarrow> pyfloat" where
  "fl x = (if x < 0 then - flpos (- x) else flpos x)"

text \<open>\<open>float(k)\<close> for an integer, \<open>int(x)\<close> for a float (truncation towards zero).\<close>

definition float_of_int :: "int \<Rightarrow> pyfloat" where
  "float_of_int k = fl (of_int k)"

definition py_int :: "pyfloat \<Rightarrow> int" where
  "py_int x = (if 0 \<le> x then \<lfloor>x\<rfloor> else \<lceil>x\<rceil>)"

subsection \<open>Strings and dictionary lookups\<close>

text \<open>\<open>str(n)\<close> for an integer, as used by the f-strings of the reason texts.\<close>

fun digits10 :: "nat \<Rightarrow> string" where
  "digits10 n = (if n < 10 then [char_of (48 + n)]
                 else digits10 (n div 10) @ [char_of (48 + n mod 10)])"

declare digits10.simps [simp del]

definition str_int :: "int \<Rightarrow> string" where
  "str_int i = (if i < 0 then CHR ''-'' # digits10 (nat (- i)) else digits10 (nat i))"

text \<open>\<open>sep.join(xs)\<close>.\<close>

fun join :: "string \<Rightarrow> string list \<Rightarrow> string" where
  "join sep [] = []"
| "join sep [x] = x"
| "join sep (x # y # ys) = x @ sep @ join sep (y # ys)"

text \<open>
  A feature dictionary is a record whose fields are the keys the code reads; a field is
  \<open>None\<close> when the key is absent.  \<open>d.get(k, default)\<close> is \<open>get_or\<close>, and the truth
  value of \<open>d.get(k)\<close> for a Boolean entry is \<open>truthy\<close> (an absent key gives Python's
  \<open>None\<close>, which is false).
\<close>

definition get_or :: "'a option \<Rightarrow> 'a \<Rightarrow> 'a" where
  "get_or v d = (case v of None \<Rightarrow> d | Some x \<Rightarrow> x)"

definition truthy :: "bool option \<Rightarrow> bool" where
  "truthy v = (v = Some True)"

section \<open>URL risk aggregation (services/enhanced\_url\_checker.py)\<close>

subsection \<open>Feature dictionaries\<close>

record reputation_features =
  is_on_blacklist :: "bool option"
  is_gsb_threat :: "bool option"
  virustotal_positives :: "int option"

record domain_features =
  domain_age :: "int option"
  has_ssl :: "bool option"
  suspicious_tld :: "bool option"
  uses_ip :: "bool option"

record security_headers =
  hsts :: "bool option"
  csp :: "bool option"
  x_frame_options :: "bool option"

record dns_records_dict =
  has_mx :: "bool option"
  has_spf :: "bool option"

record network_features =
  is_reachable :: "bool option"
  has_security_headers :: "security_headers option"
  suspicious_redirects :: "bool option"
  dns_records :: "dns_records_dict option"

record pattern_features_dict =
  suspicious_keywords_found :: "string list option"
  brand_impersonation :: "bool option"

record content_features =
  content_risk_score :: "pyfloat option"
  pattern_features :: "pattern_features_dict option"

text \<open>
  The key \<open>suspected_brand\<close> is read both with \<open>.get\<close> and by subscript, so an
  absent key (\<open>None\<close>) is kept apart from a key that holds Python's \<open>None\<close>
  (\<open>Some None\<close>), which is what the visual analyzer stores when it suspects no brand.
\<close>

record brand_analysis_dict =
  is_impersonation :: "bool option"
  confidence :: "pyfloat option"
  suspected_brand :: "string option option"

record visual_features =
  brand_analysis :: "brand_analysis_dict option"
  visual_similarity_score :: "pyfloat option"

text \<open>The empty dictionaries \<open>{}\<close> used as defaults of nested lookups.\<close>

definition no_security_headers :: security_headers where
  "no_security_headers = \<lparr>hsts = None, csp = None, x_frame_options = None\<rparr>"

definition no_dns_records :: dns_records_dict where
  "no_dns_records = \<lparr>has_mx = None, has_spf = None\<rparr>"

definition no_pattern_features :: pattern_features_dict where
  "no_pattern_features = \<lparr>suspicious_keywords_found = None, brand_impersonation = None\<rparr>"

definition no_brand_analysis :: brand_analysis_dict where
  "no_brand_analysis = \<lparr>is_impersonation = None, confidence = None, suspected_brand = None\<rparr>"

subsection \<open>The accumulator of calculate\_weighted\_risk\_score\<close>

text \<open>
  The three local variables \<open>risk_score\<close>, \<open>risk_components\<close> and \<open>positive_signals\<close>.
  The fourth field, \<open>ledger\<close>, is ghost state: the Python lists hold the message only,
  and the ledger pairs each appended message with the change the same branch makes to
  \<open>risk_score\<close>.  Nothing the function returns depends on the ledger.
\<close>

record acc =
  risk_score :: int
  risk_components :: "string list"
  positive_signals :: "string list"
  ledger :: "(string \<times> int) list"

definition acc0 :: acc where
  "acc0 = \<lparr>risk_score = 0, risk_components = [], positive_signals = [], ledger = []\<rparr>"

text \<open>\<open>risk_score += k; risk_components.append(msg)\<close>\<close>

definition add_risk :: "int \<Rightarrow> string \<Rightarrow> acc \<Rightarrow> acc" where
  "add_risk k msg a = a\<lparr>risk_score := risk_score a + k,
                         risk_components := risk_components a @ [msg],
                         ledger := ledger a @ [(msg, k)]\<rparr>"

text \<open>\<open>risk_score -= k; positive_signals.append(msg)\<close>\<close>

definition add_positive :: "int \<Rightarrow> string \<Rightarrow> acc \<Rightarrow> acc" where
  "add_positive k msg a = a\<lparr>risk_score := risk_score a - k,
                             positive_signals := positive_signals a @ [msg],
                             ledger := ledger a @ [(msg, - k)]\<rparr>"

text \<open>\<open>risk_score += k\<close> in a branch that appends no message\<close>

definition bump :: "int \<Rightarrow> acc \<Rightarrow> acc" where
  "bump k a = a\<lparr>risk_score := risk_score a + k\<rparr>"

subsection \<open>The scoring rules, in the order of the source\<close>

text \<open>Lines 175--186: VirusTotal detections.\<close>

definition rule_reputation :: "reputation_features \<Rightarrow> acc \<Rightarrow> acc" where
  "rule_reputation reputation_f a =
     (let vt_positives = get_or (virustotal_positives reputation_f) 0
      in if vt_positives > 10
           then add_risk 60 (''VirusTotal: '' @ str_int vt_positives @ '' detections'') a
         else if vt_positives > 5
           then add_risk 40 (''VirusTotal: '' @ str_int vt_positives @ '' detections'') a
         else if vt_positives > 0
           then add_risk 20 (''VirusTotal: '' @ str_int vt_positives @ '' detection(s)'') a
         else add_positive 0 ''Clean reputation (0 detections)'' a)"

text \<open>Lines 189--210: domain age, older is safer; an unknown age adds 10 without a reason.\<close>

definition rule_domain_age :: "domain_features \<Rightarrow> acc \<Rightarrow> acc" where
  "rule_domain_age domain_f a =
     (let age = get_or (domain_age domain_f) (- 1)
      in if age > 365 * 5
           then add_positive 15 (''Established domain ('' @ str_int (age div 365) @ '' years)'') a
         else if age > 365 * 2
           then add_positive 10 (''Mature domain ('' @ str_int (age div 365) @ '' years)'') a
         else if age > 365 then add_positive 5 ''Domain over 1 year old'' a
         else if age > 90 then bump 5 a
         else if age > 30 then add_risk 15 ''Relatively new domain'' a
         else if age > 0
           then add_risk 30 (''Very new domain ('' @ str_int age @ '' days)'') a
         else bump 10 a)"

text \<open>Lines 213--217: SSL certificate.\<close>

definition rule_ssl :: "domain_features \<Rightarrow> acc \<Rightarrow> acc" where
  "rule_ssl domain_f a =
     (if truthy (has_ssl domain_f) then add_positive 0 ''Valid SSL certificate'' a
      else add_risk 25 ''No SSL certificate'' a)"

text \<open>Lines 220--226: suspicious top-level domain, IP literal as host.\<close>

definition rule_suspicious_tld :: "domain_features \<Rightarrow> acc \<Rightarrow> acc" where
  "rule_suspicious_tld domain_f a =
     (if truthy (suspicious_tld domain_f) then add_risk 15 ''Suspicious TLD'' a else a)"

definition rule_uses_ip :: "domain_features \<Rightarrow> acc \<Rightarrow> acc" where
  "rule_uses_ip domain_f a =
     (if truthy (uses_ip domain_f) then add_risk 20 ''Uses IP address'' a else a)"

text \<open>Lines 229--259: security headers, redirects and DNS records, or an unreachable site.\<close>

definition security_count :: "security_headers \<Rightarrow> nat" where
  "security_count h = length (filter (\<lambda>b. get_or b False)
                                 [hsts h, csp h, x_frame_options h])"

definition rule_security_headers :: "network_features \<Rightarrow> acc \<Rightarrow> acc" where
  "rule_security_headers network_f a =
     (let n = security_count (get_or (has_security_headers network_f) no_security_headers)
      in if n \<ge> 3 then add_positive 10 ''Strong security headers'' a
         else if n \<ge> 2 then add_positive 5 ''Good security headers'' a
         else if n = 0 then add_risk 10 ''No security headers'' a
         else a)"

definition rule_redirects :: "network_features \<Rightarrow> acc \<Rightarrow> acc" where
  "rule_redirects network_f a =
     (if truthy (suspicious_redirects network_f) then add_risk 15 ''URL redirects detected'' a
      else a)"

definition rule_dns :: "network_features \<Rightarrow> acc \<Rightarrow> acc" where
  "rule_dns network_f a =
     (let dns = get_or (dns_records network_f) no_dns_records
      in if truthy (has_mx dns) \<and> truthy (has_spf dns)
           then add_positive 5 ''Proper DNS configuration'' a
         else a)"

definition rule_network :: "network_features \<Rightarrow> acc \<Rightarrow> acc" where
  "rule_network network_f a =
     (if truthy (is_reachable network_f)
        then rule_dns network_f (rule_redirects network_f (rule_security_headers network_f a))
      else add_risk 20 ''Site unreachable'' a)"

text \<open>Lines 262--283: content risk score, suspicious keywords, brand name in the URL.\<close>

definition rule_content_risk :: "content_features \<Rightarrow> acc \<Rightarrow> acc" where
  "rule_content_risk content_f a =
     (let content_risk = get_or (content_risk_score content_f) 0
      in if content_risk > fl (7 / 10) then add_risk 20 ''High-risk content patterns'' a
         else if content_risk > fl (4 / 10) then add_risk 10 ''Suspicious content patterns'' a
         else a)"

definition rule_keywords :: "content_features \<Rightarrow> acc \<Rightarrow> acc" where
  "rule_keywords content_f a =
     (let patterns = get_or (pattern_features content_f) no_pattern_features;
          suspicious_keywords = get_or (suspicious_keywords_found patterns) []
      in if length suspicious_keywords > 3
           then add_risk 15 (''Multiple suspicious keywords: ''
                               @ join '', '' (take 3 suspicious_keywords)) a
         else if length suspicious_keywords > 0
           then add_risk 5 (''Suspicious keyword(s): '' @ join '', '' suspicious_keywords) a
         else a)"

definition rule_brand_url :: "content_features \<Rightarrow> acc \<Rightarrow> acc" where
  "rule_brand_url content_f a =
     (let patterns = get_or (pattern_features content_f) no_pattern_features
      in if truthy (brand_impersonation patterns)
           then add_risk 25 ''Possible brand impersonation in URL'' a
         else a)"

text \<open>
  Lines 286--302: visual brand impersonation and similarity to phishing templates.
  \<open>str_opt\<close> is the f-string rendering of \<open>visual_brand.get('suspected_brand')\<close>.
\<close>

definition str_opt :: "string option option \<Rightarrow> string" where
  "str_opt v = (case v of None \<Rightarrow> ''None'' | Some None \<Rightarrow> ''None'' | Some (Some s) \<Rightarrow> s)"

definition rule_visual_brand :: "visual_features \<Rightarrow> acc \<Rightarrow> acc" where
  "rule_visual_brand visual_f a =
     (let visual_brand = get_or (brand_analysis visual_f) no_brand_analysis
      in if truthy (is_impersonation visual_brand)
           then (if get_or (confidence visual_brand) 0 > fl (7 / 10)
                   then add_risk 30 (''High confidence '' @ str_opt (suspected_brand visual_brand)
                                       @ '' impersonation'') a
                 else add_risk 15 (''Possible '' @ str_opt (suspected_brand visual_brand)
                                     @ '' impersonation'') a)
         else a)"

definition rule_visual_similarity :: "visual_features \<Rightarrow> acc \<Rightarrow> acc" where
  "rule_visual_similarity visual_f a =
     (let visual_similarity = get_or (visual_similarity_score visual_f) 0
      in if visual_similarity > fl (8 / 10)
           then add_risk 25 ''High similarity to known phishing sites'' a
         else if visual_similarity > fl (6 / 10)
           then add_risk 10 ''Some similarity to phishing patterns'' a
         else a)"

text \<open>The accumulator after the rules (lines 175--302), when no blacklist hit returned early.\<close>

definition rule_based ::
  "domain_features \<Rightarrow> content_features \<Rightarrow> reputation_features \<Rightarrow> visual_features
     \<Rightarrow> network_features \<Rightarrow> acc" where
  "rule_based domain_f content_f reputation_f visual_f network_f =
     rule_visual_similarity visual_f (rule_visual_brand visual_f
       (rule_brand_url content_f (rule_keywords content_f (rule_content_risk content_f
         (rule_network network_f
           (rule_uses_ip domain_f (rule_suspicious_tld domain_f (rule_ssl domain_f
             (rule_domain_age domain_f (rule_reputation reputation_f acc0))))))))))"

subsection \<open>Classifier blend, clamp and reason (lines 304--340)\<close>

definition ml_weight_of :: "nat \<Rightarrow> nat \<Rightarrow> int \<Rightarrow> pyfloat" where
  "ml_weight_of n_positive n_risk ml_risk =
     (if n_positive \<ge> 3 \<and> ml_risk > 60 then fl (15 / 100)
      else if n_risk \<ge> 3 \<and> ml_risk < 40 then fl (15 / 100)
      else fl (25 / 100))"

text \<open>\<open>int((1 - ml_weight) * risk_score + ml_weight * ml_risk)\<close>\<close>

definition blend :: "pyfloat \<Rightarrow> int \<Rightarrow> int \<Rightarrow> int" where
  "blend ml_weight score ml_risk =
     py_int (fl (fl (fl (1 - ml_weight) * float_of_int score)
                 + fl (ml_weight * float_of_int ml_risk)))"

definition ml_blend :: "pyfloat \<Rightarrow> acc \<Rightarrow> int" where
  "ml_blend ml_prediction a =
     (let ml_risk = py_int (fl (ml_prediction * float_of_int 100));
          ml_weight = ml_weight_of (length (positive_signals a)) (length (risk_components a))
                        ml_risk
      in blend ml_weight (risk_score a) ml_risk)"

definition clamp_score :: "int \<Rightarrow> int" where
  "clamp_score s = max 0 (min 100 s)"

definition summary :: "int \<Rightarrow> acc \<Rightarrow> string" where
  "summary s a =
     (if s < 25
        then (if positive_signals a \<noteq> []
                then ''Low risk - '' @ join ''; '' (take 2 (positive_signals a))
              else ''No significant risk indicators detected'')
      else if s < 60
        then (if risk_components a \<noteq> []
                then ''Medium risk - '' @ join ''; '' (take 2 (risk_components a))
              else ''Some suspicious patterns detected'')
      else (if risk_components a \<noteq> []
              then ''High risk - '' @ join ''; '' (take 3 (risk_components a))
            else ''Multiple risk indicators present''))"

definition finish :: "acc \<Rightarrow> pyfloat option \<Rightarrow> int \<times> string" where
  "finish a ml_prediction =
     (let blended = (case ml_prediction of None \<Rightarrow> risk_score a
                     | Some p \<Rightarrow> ml_blend p a);
          final = clamp_score blended
      in (final, summary final a))"

text \<open>
  The whole function.  The blacklist branch (lines 170--173) returns before any other rule
  and before the blend; the message it appends to \<open>risk_components\<close> is dropped with the
  local list, the returned reason is the fixed text.
\<close>

definition calculate_weighted_risk_score ::
  "string \<Rightarrow> domain_features \<Rightarrow> content_features \<Rightarrow> reputation_features
     \<Rightarrow> visual_features \<Rightarrow> network_features \<Rightarrow> pyfloat option \<Rightarrow> int \<times> string" where
  "calculate_weighted_risk_score url domain_f content_f reputation_f visual_f network_f
       ml_prediction =
     (if truthy (is_on_blacklist reputation_f) \<or> truthy (is_gsb_threat reputation_f)
        then (90, ''Blacklisted or known threat detected'')
      else finish (rule_based domain_f content_f reputation_f visual_f network_f)
             ml_prediction)"

subsection \<open>check\_url\_risk\<close>

definition TRUSTED_DOMAINS :: "string list" where
  "TRUSTED_DOMAINS =
     [''google.com'', ''microsoft.com'', ''apple.com'', ''amazon.com'', ''github.com'',
      ''wikipedia.org'', ''stackoverflow.com'', ''youtube.com'', ''facebook.com'',
      ''twitter.com'', ''linkedin.com'', ''paypal.com'', ''ebay.com'', ''netflix.com'',
      ''instagram.com'']"

definition RISK_THRESHOLDS :: "string \<rightharpoonup> int" where
  "RISK_THRESHOLDS = map_of [(''legitimate'', 25), (''suspicious'', 60), (''risky'', 100)]"

text \<open>
  A Python string is modelled by its UTF-8 bytes.  Equality, \<open>endswith\<close> and
  \<open>replace\<close> with the ASCII patterns of this program give the same result on the bytes
  as on the code points.  \<open>str.lower\<close> does not: it follows the Unicode case mapping
  (the Kelvin sign U+212A becomes \<open>k\<close>), so it is a parameter of the model, see
  \<open>collaborators\<close> below.  On ASCII text it is \<open>ascii_lower\<close>, which the examples
  use.
\<close>

definition lower_char :: "char \<Rightarrow> char" where
  "lower_char c = (let n = (of_char c :: nat)
                   in if 65 \<le> n \<and> n \<le> 90 then char_of (n + 32) else c)"

definition ascii_lower :: "string \<Rightarrow> string" where
  "ascii_lower s = map lower_char s"

definition startswith :: "string \<Rightarrow> string \<Rightarrow> bool" where
  "startswith s t = (take (length t) s = t)"

definition endswith :: "string \<Rightarrow> string \<Rightarrow> bool" where
  "endswith s t = (length t \<le> length s \<and> drop (length s - length t) s = t)"

text \<open>
  \<open>s.replace(old, new)\<close> for a non-empty \<open>old\<close>: every occurrence, scanning from the
  left, not only a leading one.
\<close>

function replace :: "string \<Rightarrow> string \<Rightarrow> string \<Rightarrow> string" where
  "replace old new s =
     (if s = [] then []
      else if old \<noteq> [] \<and> startswith s old then new @ replace old new (drop (length old) s)
      else hd s # replace old new (tl s))"
  by pat_completeness auto
termination
  by (relation "measure (\<lambda>(old, new, s). length s)") auto

declare replace.simps [simp del]

text \<open>
  What check\_url\_risk calls but this repository does not define, or what lies outside
  the aggregation: \<open>urlparse\<close> and \<open>str.lower\<close> of the Python library, and the five
  analyzers.  A call that raises an exception with message \<open>msg\<close> is \<open>Inl msg\<close>.  Of
  the result of \<open>urlparse\<close> the code reads the attribute \<open>netloc\<close> only, which keeps
  user information and port; \<open>hostname\<close>, the host alone, is carried along because the
  specification speaks of the host.
\<close>

record parse_result =
  netloc :: string
  hostname :: "string option"

record collaborators =
  urlparse :: "string \<Rightarrow> string + parse_result"
  str_lower :: "string \<Rightarrow> string"
  domain_analyzer :: "string \<Rightarrow> string + domain_features"
  content_analyzer :: "string \<Rightarrow> string + content_features"
  reputation_analyzer :: "string \<Rightarrow> string + reputation_features"
  network_analyzer :: "string \<Rightarrow> string + network_features"
  visual_analyzer :: "string \<Rightarrow> string + visual_features"

text \<open>
  The checker object.  \<open>model\<close> stands for lines 451--460 as a whole: feature extraction,
  \<open>predict_proba\<close> and the choice of the probability of the malicious class, \<open>Inl\<close> when
  any of it raises.
\<close>

record checker =
  models_loaded :: bool
  model :: "(string \<Rightarrow> string + pyfloat) option"
  model_features :: "string list option"

definition is_trusted_domain :: "collaborators \<Rightarrow> string \<Rightarrow> bool" where
  "is_trusted_domain env url =
     (case urlparse env url of
        Inl e \<Rightarrow> False
      | Inr parsed \<Rightarrow>
          (let domain = replace ''www.'' [] (str_lower env (netloc parsed))
           in list_ex (\<lambda>trusted. domain = trusted \<or> endswith domain (''.'' @ trusted))
                TRUSTED_DOMAINS))"

text \<open>
  The report, restricted to the keys the assessment decides.  \<open>analysis_time\<close> and
  \<open>timestamp\<close> read the clock, \<open>details\<close>, \<open>ml_insights\<close> and \<open>user_tip\<close> repeat
  analyzer output or are fixed texts per status; they are left out.  A key that a report
  does not have is \<open>None\<close>.
\<close>

record report =
  rp_url :: string
  rp_overall_status :: string
  rp_risk_score :: int
  rp_reason :: string
  rp_trusted_domain :: "bool option"
  rp_ml_model_used :: "bool option"
  rp_error :: "string option"

definition trusted_report :: "string \<Rightarrow> report" where
  "trusted_report url =
     \<lparr>rp_url = url, rp_overall_status = ''legitimate'', rp_risk_score = 0,
      rp_reason = ''Domain is verified and trusted.'', rp_trusted_domain = Some True,
      rp_ml_model_used = Some False, rp_error = None\<rparr>"

definition error_report :: "string \<Rightarrow> string \<Rightarrow> report" where
  "error_report url e =
     \<lparr>rp_url = url, rp_overall_status = ''error'', rp_risk_score = - 1,
      rp_reason = ''Analysis failed: '' @ e, rp_trusted_domain = None,
      rp_ml_model_used = None, rp_error = Some e\<rparr>"

text \<open>Lines 474--480.\<close>

definition determine_status :: "int \<Rightarrow> string" where
  "determine_status final_risk_score =
     (if final_risk_score < the (RISK_THRESHOLDS ''legitimate'') then ''legitimate''
      else if final_risk_score < the (RISK_THRESHOLDS ''suspicious'') then ''suspicious''
      else ''risky'')"

text \<open>Lines 447--467: the classifier probability, if a model is loaded and does not raise.\<close>

definition ml_predict :: "checker \<Rightarrow> string \<Rightarrow> pyfloat option" where
  "ml_predict self url =
     (if models_loaded self \<and> \<not> Option.is_none (model self)
           \<and> get_or (model_features self) [] \<noteq> []
        then (case the (model self) url of Inl e \<Rightarrow> None | Inr p \<Rightarrow> Some p)
      else None)"

definition comprehensive_report ::
  "checker \<Rightarrow> string \<Rightarrow> domain_features \<Rightarrow> content_features \<Rightarrow> reputation_features
     \<Rightarrow> network_features \<Rightarrow> visual_features \<Rightarrow> report" where
  "comprehensive_report self url domain_f content_f reputation_f network_f visual_f =
     (let ml_prediction = ml_predict self url;
          (final_risk_score, reason) =
             calculate_weighted_risk_score url domain_f content_f reputation_f visual_f
               network_f ml_prediction
      in \<lparr>rp_url = url, rp_overall_status = determine_status final_risk_score,
          rp_risk_score = final_risk_score, rp_reason = reason, rp_trusted_domain = None,
          rp_ml_model_used = Some (ml_prediction \<noteq> None), rp_error = None\<rparr>)"

text \<open>
  Two statements of the \<open>try\<close> block can still raise after the analyzers have
  returned, and the \<open>except\<close> branch then returns the error report.  Line 524 calls
  \<open>urlparse(url)\<close> once more, which raises for a URL it rejects (is\_trusted\_domain had
  swallowed that exception).  Line 592 reads
  \<open>visual_f['brand_analysis']['suspected_brand']\<close> when an impersonation is flagged,
  a \<open>KeyError\<close> when the key is absent; the text of that exception is the key in quotes.
\<close>

definition brand_key_error :: "visual_features \<Rightarrow> bool" where
  "brand_key_error visual_f =
     (let visual_brand = get_or (brand_analysis visual_f) no_brand_analysis
      in truthy (is_impersonation visual_brand) \<and> suspected_brand visual_brand = None)"

definition suspected_brand_key :: string where
  "suspected_brand_key = [CHR 0x27] @ ''suspected_brand'' @ [CHR 0x27]"

definition report_after_analysis ::
  "checker \<Rightarrow> collaborators \<Rightarrow> string \<Rightarrow> domain_features \<Rightarrow> content_features
     \<Rightarrow> reputation_features \<Rightarrow> network_features \<Rightarrow> visual_features \<Rightarrow> report" where
  "report_after_analysis self env url domain_f content_f reputation_f network_f visual_f =
     (case urlparse env url of
        Inl e \<Rightarrow> error_report url e
      | Inr parsed \<Rightarrow>
          if brand_key_error visual_f then error_report url suspected_brand_key
          else comprehensive_report self url domain_f content_f reputation_f network_f
                 visual_f)"

text \<open>
  The second component is a ghost trace: the analyzers called, in order.
\<close>

datatype analyzer_call = Domain | Content | Reputation | Network | Visual

definition check_url_risk ::
  "checker \<Rightarrow> collaborators \<Rightarrow> string \<Rightarrow> report \<times> analyzer_call list" where
  "check_url_risk self env url =
     (if is_trusted_domain env url then (trusted_report url, [])
      else case domain_analyzer env url of
        Inl e \<Rightarrow> (error_report url e, [Domain])
      | Inr domain_f \<Rightarrow>
      (case content_analyzer env url of
        Inl e \<Rightarrow> (error_report url e, [Domain, Content])
      | Inr content_f \<Rightarrow>
      (case reputation_analyzer env url of
        Inl e \<Rightarrow> (error_report url e, [Domain, Content, Reputation])
      | Inr reputation_f \<Rightarrow>
      (case network_analyzer env url of
        Inl e \<Rightarrow> (error_report url e, [Domain, Content, Reputation, Network])
      | Inr network_f \<Rightarrow>
      (case visual_analyzer env url of
        Inl e \<Rightarrow> (error_report url e, [Domain, Content, Reputation, Network, Visual])
      | Inr visual_f \<Rightarrow>
          (report_after_analysis self env url domain_f content_f reputation_f network_f
             visual_f,
           [Domain, Content, Reputation, Network, Visual]))))))"

section \<open>APK risk scoring (run\_analysis.py)\<close>

subsection \<open>Inputs\<close>

text \<open>
  The weight, explanation and category of each dangerous permission (lines 112--126).
\<close>

definition DANGEROUS_PERMISSIONS :: "(string \<times> int \<times> string \<times> string) list" where
  "DANGEROUS_PERMISSIONS =
     [(''android.permission.READ_SMS'', 15,
       ''Can read all SMS messages, including private conversations and two-factor authentication codes.'',
       ''Spyware Risk''),
      (''android.permission.SEND_SMS'', 20,
       ''Can send SMS messages from your phone without your knowledge, potentially signing you up for costly premium services.'',
       ''Toll Fraud Risk''),
      (''android.permission.READ_CONTACTS'', 10,
       ''Can access and steal your entire contact list.'', ''Spyware Risk''),
      (''android.permission.ACCESS_FINE_LOCATION'', 10,
       ''Can track your precise physical location.'', ''Spyware Risk''),
      (''android.permission.RECORD_AUDIO'', 15,
       ''Can record audio using the microphone at any time.'', ''Spyware Risk''),
      (''android.permission.CAMERA'', 10,
       ''Can access your camera to take pictures or record video without your knowledge.'',
       ''Spyware Risk''),
      (''android.permission.INSTALL_PACKAGES'', 20,
       ''Can install other applications on your device, which could be malware.'',
       ''Malware Risk''),
      (''android.permission.REQUEST_INSTALL_PACKAGES'', 20,
       ''Can request to install other apps, potentially tricking users into installing malware.'',
       ''Trojan Risk''),
      (''android.permission.BIND_DEVICE_ADMIN'', 25,
       ''Can gain administrative privileges, making the app very difficult to uninstall.'',
       ''Malware Risk''),
      (''android.permission.SYSTEM_ALERT_WINDOW'', 15,
       ''Can draw over other apps, which can be used to create fake login screens and steal passwords.'',
       ''Phishing Risk''),
      (''android.permission.QUERY_ALL_PACKAGES'', 10,
       ''Can see all other apps installed on your device, a potential privacy risk.'',
       ''Privacy Risk''),
      (''android.permission.REQUEST_DELETE_PACKAGES'', 15,
       ''Can request to uninstall other apps, potentially removing security software.'',
       ''Persistence Risk''),
      (''android.permission.RECEIVE_BOOT_COMPLETED'', 5,
       ''Allows the app to start itself as soon as the device finishes booting up.'',
       ''Stealth Risk'')]"

text \<open>
  The dictionaries of \<open>analysis_results\<close>.  A VirusTotal report is the dictionary that
  \<open>get_virustotal_report\<close> builds: an error, a status (file unknown) or the detection
  counts with a scan date.
\<close>

record metadata_dict =
  permissions :: "string list option"
  file_sha256 :: "string option"
  md_error :: "string option"

record virustotal_report =
  vt_error :: "string option"
  vt_status :: "string option"
  positives :: "int option"
  total :: "int option"
  scan_date :: "string option"

record clone_warning =
  warning_type :: string
  warning_message :: string

record analysis_results =
  metadata :: "metadata_dict option"
  virustotal :: "virustotal_report option"
  clone_analysis :: "clone_warning list option"

record reason_record =
  level :: string
  risk_type :: string
  message :: string

definition no_metadata :: metadata_dict where
  "no_metadata = \<lparr>permissions = None, file_sha256 = None, md_error = None\<rparr>"

definition no_virustotal :: virustotal_report where
  "no_virustotal = \<lparr>vt_error = None, vt_status = None, positives = None, total = None,
                     scan_date = None\<rparr>"

subsection \<open>calculate\_risk\<close>

text \<open>\<open>perm.split('.')[-1]\<close>: the text after the last dot.\<close>

definition last_component :: "string \<Rightarrow> string" where
  "last_component s = rev (takeWhile (\<lambda>c. c \<noteq> CHR ''.'') (rev s))"

text \<open>Lines 135--141.\<close>

definition dangerous_found :: "string list \<Rightarrow> string list" where
  "dangerous_found apk_permissions =
     filter (\<lambda>p. map_of DANGEROUS_PERMISSIONS p \<noteq> None) apk_permissions"

definition permission_weight :: "string \<Rightarrow> int" where
  "permission_weight perm = (case map_of DANGEROUS_PERMISSIONS perm of
                               None \<Rightarrow> 0 | Some (weight, msg, rt) \<Rightarrow> weight)"

definition permission_reason :: "string \<Rightarrow> reason_record" where
  "permission_reason perm =
     (case map_of DANGEROUS_PERMISSIONS perm of
        None \<Rightarrow> \<lparr>level = [], risk_type = [], message = []\<rparr>
      | Some (weight, msg, rt) \<Rightarrow>
          \<lparr>level = ''High Risk Permission'', risk_type = rt,
           message = ''Requests '' @ [CHR 0x27] @ last_component perm @ [CHR 0x27]
                       @ '': '' @ msg\<rparr>)"

definition permission_risk_of :: "string list \<Rightarrow> int" where
  "permission_risk_of apk_permissions = sum_list (map permission_weight
                                                    (dangerous_found apk_permissions))"

text \<open>
  The arithmetic of \<open>calculate_risk\<close> is on numbers that come from outside, so a result may
  not fit a binary64.  The true division of two integers and the conversion of an integer
  to a float then raise \<open>OverflowError\<close> at once.  A float product or sum becomes an
  infinity instead, which every later sum keeps (the other summands are finite, so no NaN
  arises) and which \<open>int()\<close> at line 158 refuses with the same \<open>OverflowError\<close>; nothing
  that happens in between can be observed, since the exception leaves the function.  So
  every operation whose rounded result is not finite is the error.
\<close>

datatype py_error = OverflowError

definition finite_float :: "rat \<Rightarrow> bool" where
  "finite_float x = (\<bar>x\<bar> < 2 ^ 1024)"

definition checked :: "rat \<Rightarrow> py_error + pyfloat" where
  "checked x = (if finite_float (fl x) then Inr (fl x) else Inl OverflowError)"

text \<open>
  Lines 144--150.  \<open>vt_risk\<close> starts as the integer \<open>0\<close> and becomes a float only in the
  branch \<open>total > 0\<close>; \<open>None\<close> stands for the untouched integer.  A dictionary is true
  when it has a key, an error text when it is not empty.
\<close>

definition vt_truthy :: "virustotal_report \<Rightarrow> bool" where
  "vt_truthy r = (vt_error r \<noteq> None \<or> vt_status r \<noteq> None \<or> positives r \<noteq> None
                  \<or> total r \<noteq> None \<or> scan_date r \<noteq> None)"

definition vt_usable :: "virustotal_report \<Rightarrow> bool" where
  "vt_usable r = (vt_truthy r \<and> get_or (vt_error r) [] = [])"

definition vt_risk_of :: "virustotal_report \<Rightarrow> (py_error + pyfloat) option" where
  "vt_risk_of r =
     (if vt_usable r \<and> get_or (total r) 1 > 0
        then Some (case checked (of_int (get_or (positives r) 0) / of_int (get_or (total r) 1)) of
                     Inl e \<Rightarrow> Inl e
                   | Inr ratio \<Rightarrow> checked (ratio * float_of_int 100))
      else None)"

definition vt_reasons :: "virustotal_report \<Rightarrow> reason_record list" where
  "vt_reasons r =
     (if vt_usable r \<and> get_or (positives r) 0 > 0
        then [\<lparr>level = ''CRITICAL'', risk_type = ''Malware'',
               message = ''Flagged by '' @ str_int (get_or (positives r) 0) @ ''/''
                           @ str_int (get_or (total r) 1) @ '' engines on VirusTotal.''\<rparr>]
      else [])"

text \<open>Lines 153--155.\<close>

definition warning_weight :: "clone_warning \<Rightarrow> int" where
  "warning_weight w = (if warning_type w = ''signature_mismatch'' then 65 else 45)"

definition heuristic_risk_of :: "clone_warning list \<Rightarrow> int" where
  "heuristic_risk_of ws = sum_list (map warning_weight ws)"

definition warning_reason :: "clone_warning \<Rightarrow> reason_record" where
  "warning_reason w = \<lparr>level = ''CRITICAL'', risk_type = ''Clone / Impersonation'',
                       message = warning_message w\<rparr>"

text \<open>
  Line 158: \<open>min(100, int(permission_risk + vt_risk + heuristic_risk))\<close>, an integer sum
  while \<open>vt_risk\<close> is the integer \<open>0\<close>, a float sum from left to right otherwise: each
  integer is converted, then added.
\<close>

definition total_risk_of :: "int \<Rightarrow> (py_error + pyfloat) option \<Rightarrow> int \<Rightarrow> py_error + int"
  where
  "total_risk_of permission_risk vt_risk heuristic_risk =
     (case vt_risk of
        None \<Rightarrow> Inr (min 100 (permission_risk + 0 + heuristic_risk))
      | Some (Inl e) \<Rightarrow> Inl e
      | Some (Inr v) \<Rightarrow>
          (case checked (of_int permission_risk) of
             Inl e \<Rightarrow> Inl e
           | Inr p \<Rightarrow>
          (case checked (p + v) of
             Inl e \<Rightarrow> Inl e
           | Inr pv \<Rightarrow>
          (case checked (of_int heuristic_risk) of
             Inl e \<Rightarrow> Inl e
           | Inr h \<Rightarrow>
          (case checked (pv + h) of
             Inl e \<Rightarrow> Inl e
           | Inr pvh \<Rightarrow> Inr (min 100 (py_int pvh)))))))"

text \<open>
  Lines 162--172.  The labels start with a pictograph, written here as its UTF-8 bytes.
\<close>

definition excellent_confidence :: string where
  "excellent_confidence = [CHR 0xE2, CHR 0x9C, CHR 0x85] @ '' Excellent Confidence''"

definition fair_confidence :: string where
  "fair_confidence = [CHR 0xE2, CHR 0x9A, CHR 0xA0, CHR 0xEF, CHR 0xB8, CHR 0x8F]
                       @ '' Fair Confidence''"

definition poor_confidence :: string where
  "poor_confidence = [CHR 0xF0, CHR 0x9F, CHR 0x9A, CHR 0xA9] @ '' Poor Confidence''"

definition no_confidence :: string where
  "no_confidence = [CHR 0xE2, CHR 0x9D, CHR 0x8C] @ '' No Confidence - DO NOT INSTALL''"

definition critical_risk :: string where
  "critical_risk = [CHR 0xE2, CHR 0x98, CHR 0xA0, CHR 0xEF, CHR 0xB8, CHR 0x8F]
                     @ '' CRITICAL RISK - MALWARE LIKELY''"

definition confidence_level_of :: "int \<Rightarrow> string" where
  "confidence_level_of confidence_score =
     (if confidence_score \<ge> 81 then excellent_confidence
      else if confidence_score \<ge> 51 then fair_confidence
      else if confidence_score \<ge> 21 then poor_confidence
      else if confidence_score > 10 then no_confidence
      else critical_risk)"

definition safe_reason :: reason_record where
  "safe_reason = \<lparr>level = ''Info'', risk_type = ''None Detected'',
                  message = ''This app appears to be safe based on our analysis.''\<rparr>"

text \<open>
  The result is \<open>Inr\<close> of the tuple
  \<open>(confidence_score, confidence_level, total_risk_score, reasons)\<close>, or \<open>Inl\<close> of the
  exception that leaves the function.
\<close>

definition calculate_risk ::
  "analysis_results \<Rightarrow> py_error + (int \<times> string \<times> int \<times> reason_record list)"
  where
  "calculate_risk results =
     (let apk_permissions = get_or (permissions (get_or (metadata results) no_metadata)) [];
          permission_risk = permission_risk_of apk_permissions;
          vt_report = get_or (virustotal results) no_virustotal;
          vt_risk = vt_risk_of vt_report;
          warnings = get_or (clone_analysis results) [];
          heuristic_risk = heuristic_risk_of warnings;
          reasons = map permission_reason (dangerous_found apk_permissions)
                      @ vt_reasons vt_report @ map warning_reason warnings
      in case total_risk_of permission_risk vt_risk heuristic_risk of
           Inl e \<Rightarrow> Inl e
         | Inr total_risk_score \<Rightarrow>
             (let confidence_score = 100 - total_risk_score
              in Inr (confidence_score, confidence_level_of confidence_score, total_risk_score,
                      if reasons = [] then [safe_reason] else reasons)))"

subsection \<open>analyze\_apk\<close>

text \<open>
  What \<open>analyze_apk\<close> reads from outside for one \<open>file_path\<close>: whether the file exists,
  whether androguard parses it (\<open>Some e\<close>: it raised \<open>e\<close>), and the results of
  \<open>extract_metadata\<close>, \<open>get_virustotal_report\<close> and \<open>compare_with_known_apps\<close>.  The
  string scan only passes through to the report and is left out.
\<close>

record apk_inputs =
  file_exists :: bool
  apk_parse_error :: "string option"
  extracted_metadata :: metadata_dict
  virustotal_lookup :: virustotal_report
  known_apps_comparison :: "clone_warning list"

text \<open>
  The module globals \<open>MODEL\<close> and \<open>FEATURES\<close>.  The model maps the feature vector of
  line 206 to its first class probability, \<open>predict_proba(df_vector)[0][0]\<close>, a finite
  float whose product with 100 is finite.
\<close>

record apk_classifier =
  MODEL :: "((string \<times> int) list \<Rightarrow> pyfloat) option"
  FEATURES :: "string list"

record ai_classification =
  ai_type :: string
  confidence_percent :: int

record final_report =
  confidence_score :: int
  confidence_level :: string
  reasons :: "reason_record list"
  details_risk_score :: int
  details_ai_analysis :: ai_classification
  details_metadata :: metadata_dict
  details_virustotal :: virustotal_report
  details_clone_analysis :: "clone_warning list"

text \<open>Lines 203--210.\<close>

definition ai_analysis_of :: "apk_classifier \<Rightarrow> metadata_dict \<Rightarrow> ai_classification" where
  "ai_analysis_of clf md =
     (case MODEL clf of
        None \<Rightarrow> \<lparr>ai_type = ''Not Available'', confidence_percent = 0\<rparr>
      | Some m \<Rightarrow>
          if FEATURES clf = [] then \<lparr>ai_type = ''Not Available'', confidence_percent = 0\<rparr>
          else
            (let apk_permissions = get_or (permissions md) [];
                 feature_data = map (\<lambda>feature. (feature,
                                   if feature \<in> set apk_permissions then 1 else 0))
                                  (FEATURES clf);
                 benign_prob = fl (m feature_data * float_of_int 100)
             in \<lparr>ai_type = (if benign_prob > 50 then ''Likely Benign''
                              else ''Potentially Unsafe''),
                 confidence_percent = py_int benign_prob\<rparr>))"

text \<open>
  The result is \<open>Inr (Inl msg)\<close> for the returned dictionary \<open>{'error': msg}\<close>,
  \<open>Inr (Inr report)\<close> for the returned report, and \<open>Inl e\<close> when the exception \<open>e\<close> of
  \<open>calculate_risk\<close>, which nothing catches, leaves the function.
\<close>

definition analyze_apk ::
  "apk_classifier \<Rightarrow> apk_inputs \<Rightarrow> string \<Rightarrow> py_error + (string + final_report)"
  where
  "analyze_apk clf inp file_path =
     (if \<not> file_exists inp then Inr (Inl (''File not found at: '' @ file_path))
      else case apk_parse_error inp of
        Some e \<Rightarrow> Inr (Inl (''Could not process APK file: '' @ e))
      | None \<Rightarrow>
      (case md_error (extracted_metadata inp) of
        Some e \<Rightarrow> Inr (Inl e)
      | None \<Rightarrow>
          (let md = extracted_metadata inp;
               full_analysis = \<lparr>metadata = Some md,
                                 virustotal = Some (virustotal_lookup inp),
                                 clone_analysis = Some (known_apps_comparison inp)\<rparr>
           in case calculate_risk full_analysis of
                Inl e \<Rightarrow> Inl e
              | Inr (cs, cl, risk, rs) \<Rightarrow>
                  Inr (Inr \<lparr>confidence_score = cs, confidence_level = cl, reasons = rs,
                            details_risk_score = risk,
                            details_ai_analysis = ai_analysis_of clf md,
                            details_metadata = md,
                            details_virustotal = virustotal_lookup inp,
                            details_clone_analysis = known_apps_comparison inp\<rparr>))))"

section \<open>Notions used in the statements and proofs\<close>

text \<open>
  Score and reasons of two accumulators put together: every rule adds its own score change
  and appends its own messages, whatever the accumulator it starts from.
\<close>

definition merge :: "acc \<Rightarrow> acc \<Rightarrow> acc" where
  "merge a b = \<lparr>risk_score = risk_score a + risk_score b,
                risk_components = risk_components a @ risk_components b,
                positive_signals = positive_signals a @ positive_signals b,
                ledger = ledger a @ ledger b\<rparr>"

text \<open>The rules after the reputation rule.\<close>

definition later_rules ::
  "domain_features \<Rightarrow> content_features \<Rightarrow> visual_features \<Rightarrow> network_features
     \<Rightarrow> acc \<Rightarrow> acc" where
  "later_rules domain_f content_f visual_f network_f a =
     rule_visual_similarity visual_f (rule_visual_brand visual_f
       (rule_brand_url content_f (rule_keywords content_f (rule_content_risk content_f
         (rule_network network_f
           (rule_uses_ip domain_f (rule_suspicious_tld domain_f (rule_ssl domain_f
             (rule_domain_age domain_f a)))))))))"

text \<open>
  The final score as a function of the rule-based score, the number of risk components
  and the number of positive signals.
\<close>

definition final_score :: "int \<Rightarrow> nat \<Rightarrow> nat \<Rightarrow> pyfloat option \<Rightarrow> int" where
  "final_score s n_risk n_positive ml_prediction =
     clamp_score (case ml_prediction of
                    None \<Rightarrow> s
                  | Some p \<Rightarrow>
                      (let ml_risk = py_int (fl (p * float_of_int 100))
                       in blend (ml_weight_of n_positive n_risk ml_risk) s ml_risk))"

text \<open>The sum of the score changes that the ledger attaches to the emitted reasons.\<close>

definition ledger_total :: "acc \<Rightarrow> int" where
  "ledger_total a = sum_list (map snd (ledger a))"

text \<open>
  The score change of the domain-age rule in its two branches that emit no reason.
\<close>

definition unrecorded_age_change :: "domain_features \<Rightarrow> int" where
  "unrecorded_age_change domain_f =
     (let age = get_or (domain_age domain_f) (- 1)
      in if 90 < age \<and> age \<le> 365 then 5 else if age \<le> 0 then 10 else 0)"

text \<open>
  A potential of the accumulator: the score, minus ten per risk component, plus ten per
  positive signal.  No rule lowers it by more than five.
\<close>

definition phi :: "acc \<Rightarrow> int" where
  "phi a = risk_score a - 10 * int (length (risk_components a))
             + 10 * int (length (positive_signals a))"

section \<open>Example inputs\<close>

text \<open>The records of a URL about which nothing is known.\<close>

definition reputation_unknown :: reputation_features where
  "reputation_unknown = \<lparr>is_on_blacklist = Some False, is_gsb_threat = Some False,
                          virustotal_positives = Some 0\<rparr>"

definition domain_unknown :: domain_features where
  "domain_unknown = \<lparr>domain_age = Some (- 1), has_ssl = Some False, suspicious_tld = None,
                      uses_ip = None\<rparr>"

definition network_unreachable :: network_features where
  "network_unreachable = \<lparr>is_reachable = Some False, has_security_headers = None,
                           suspicious_redirects = None, dns_records = None\<rparr>"

definition content_empty :: content_features where
  "content_empty = \<lparr>content_risk_score = None, pattern_features = None\<rparr>"

definition visual_empty :: visual_features where
  "visual_empty = \<lparr>brand_analysis = None, visual_similarity_score = None\<rparr>"

definition reputation_blacklisted :: reputation_features where
  "reputation_blacklisted = \<lparr>is_on_blacklist = Some True, is_gsb_threat = Some False,
                              virustotal_positives = Some 0\<rparr>"

text \<open>
  An established site with one detection and three weak content signals: four risk
  components, two positive signals, rule-based score 30.
\<close>

definition reputation_one_detection :: reputation_features where
  "reputation_one_detection = \<lparr>is_on_blacklist = Some False, is_gsb_threat = Some False,
                                virustotal_positives = Some 1\<rparr>"

definition domain_established :: domain_features where
  "domain_established = \<lparr>domain_age = Some 2000, has_ssl = Some True,
                          suspicious_tld = Some False, uses_ip = Some False\<rparr>"

definition network_one_header :: network_features where
  "network_one_header =
     \<lparr>is_reachable = Some True,
      has_security_headers = Some \<lparr>hsts = Some True, csp = Some False,
                                   x_frame_options = Some False\<rparr>,
      suspicious_redirects = Some False, dns_records = None\<rparr>"

definition content_suspicious :: content_features where
  "content_suspicious =
     \<lparr>content_risk_score = Some (fl (5 / 10)),
      pattern_features = Some \<lparr>suspicious_keywords_found = Some [''login''],
                               brand_impersonation = Some False\<rparr>\<rparr>"

definition visual_similar :: visual_features where
  "visual_similar = \<lparr>brand_analysis = None, visual_similarity_score = Some (fl (7 / 10))\<rparr>"

text \<open>
  Collaborators whose analyzers all raise, collaborators whose analyzers return the
  records above, and a checker without a model.  The URLs of the examples are ASCII.
\<close>

definition raising_analyzers :: "(string \<Rightarrow> string + parse_result) \<Rightarrow> collaborators" where
  "raising_analyzers parse =
     \<lparr>urlparse = parse, str_lower = ascii_lower,
      domain_analyzer = (\<lambda>u. Inl ''whois lookup timed out''),
      content_analyzer = (\<lambda>u. Inl ''content analysis failed''),
      reputation_analyzer = (\<lambda>u. Inl ''reputation analysis failed''),
      network_analyzer = (\<lambda>u. Inl ''network analysis failed''),
      visual_analyzer = (\<lambda>u. Inl ''visual analysis failed'')\<rparr>"

definition no_model :: checker where
  "no_model = \<lparr>models_loaded = False, model = None, model_features = None\<rparr>"



definition unknown_site_env :: collaborators where
  "unknown_site_env = raising_analyzers
                        (\<lambda>u. Inr \<lparr>netloc = ''a.test'', hostname = Some ''a.test''\<rparr>)"


text \<open>
  An APK that requests READ\_SMS and SEND\_SMS (and the harmless INTERNET), has no
  detection on VirusTotal, and carries one signature-mismatch warning; no classifier, and
  a classifier that calls everything benign.
\<close>

definition sms_metadata :: metadata_dict where
  "sms_metadata = \<lparr>permissions = Some [''android.permission.INTERNET'',
                                          ''android.permission.READ_SMS'',
                                          ''android.permission.SEND_SMS''],
                    file_sha256 = Some ''ab12'', md_error = None\<rparr>"

definition clean_virustotal :: virustotal_report where
  "clean_virustotal = \<lparr>vt_error = None, vt_status = None, positives = Some 0,
                        total = Some 70, scan_date = Some ''2024-01-01 00:00:00''\<rparr>"

definition signature_warning :: clone_warning where
  "signature_warning = \<lparr>warning_type = ''signature_mismatch'',
                         warning_message = ''Signature does not match official signature.''\<rparr>"

definition sms_clone_results :: analysis_results where
  "sms_clone_results = \<lparr>metadata = Some sms_metadata, virustotal = Some clean_virustotal,
                         clone_analysis = Some [signature_warning]\<rparr>"

definition sms_apk :: apk_inputs where
  "sms_apk = \<lparr>file_exists = True, apk_parse_error = None, extracted_metadata = sms_metadata,
               virustotal_lookup = clean_virustotal,
               known_apps_comparison = [signature_warning]\<rparr>"

definition no_classifier :: apk_classifier where
  "no_classifier = \<lparr>MODEL = None, FEATURES = []\<rparr>"

definition benign_classifier :: apk_classifier where
  "benign_classifier = \<lparr>MODEL = Some (\<lambda>v. fl (9 / 10)),
                          FEATURES = [''android.permission.SEND_SMS'']\<rparr>"

section \<open>Properties of the floating-point model\<close>

lemma up2_bracket: "1 \<le> x \<Longrightarrow> 2 ^ up2 x \<le> x \<and> x < 2 * 2 ^ up2 x"
proof (induction x rule: up2.induct)
  case (1 x)
  show ?case
  proof (cases "x < 2")
    case True
    then show ?thesis using "1.prems" by (simp add: up2.simps)
  next
    case False
    then have "1 \<le> x / 2" by simp
    with "1.IH" False have "2 ^ up2 (x / 2) \<le> x / 2 \<and> x / 2 < 2 * 2 ^ up2 (x / 2)" by simp
    moreover have "up2 x = Suc (up2 (x / 2))" using False by (simp add: up2.simps)
    ultimately show ?thesis by simp
  qed
qed

lemma down2_bracket:
  "0 < x \<Longrightarrow> x < 1 \<Longrightarrow> 1 \<le> x * 2 ^ down2 x \<and> x * 2 ^ down2 x < 2"
proof (induction x rule: down2.induct)
  case (1 x)
  have s: "down2 x = Suc (down2 (2 * x))" using "1.prems" by (simp add: down2.simps)
  show ?case
  proof (cases "1 \<le> 2 * x")
    case True
    then have "down2 (2 * x) = 0" by (simp add: down2.simps)
    then show ?thesis using s True "1.prems" by simp
  next
    case False
    with "1.IH" "1.prems" have "1 \<le> 2 * x * 2 ^ down2 (2 * x) \<and> 2 * x * 2 ^ down2 (2 * x) < 2"
      by simp
    then show ?thesis using s by (simp add: mult.assoc mult.left_commute)
  qed
qed

lemma ilog2_bracket:
  assumes "0 < x"
  shows "2 powi ilog2 x \<le> x" and "x < 2 powi (ilog2 x + 1)"
proof -
  have "2 powi ilog2 x \<le> x \<and> x < 2 powi (ilog2 x + 1)"
  proof (cases "1 \<le> x")
    case True
    then have "2 ^ up2 x \<le> x \<and> x < 2 * 2 ^ up2 x" by (rule up2_bracket)
    moreover have "ilog2 x = int (up2 x)" using True by (simp add: ilog2_def)
    ultimately show ?thesis by (simp add: power_int_add)
  next
    case False
    then have x1: "x < 1" by simp
    define n where "n = down2 x"
    have b: "1 \<le> x * 2 ^ n \<and> x * 2 ^ n < 2" unfolding n_def using assms x1 by (rule down2_bracket)
    have e: "ilog2 x = - int n" using False by (simp add: ilog2_def n_def)
    have p: "(2::rat) powi (- int n) = 1 / 2 ^ n" by (simp add: power_int_minus divide_inverse)
    have "(2::rat) powi (- int n + 1) = 2 powi (- int n) * 2"
      by (rule power_int_add_1) simp
    then have q: "(2::rat) powi (- int n + 1) = 2 / 2 ^ n" by (simp only: p)
    have "1 / 2 ^ n \<le> x" using b by (simp add: field_simps)
    moreover have "x < 2 / 2 ^ n" using b by (simp add: field_simps)
    ultimately show ?thesis by (simp only: e p q)
  qed
  then show "2 powi ilog2 x \<le> x" and "x < 2 powi (ilog2 x + 1)" by simp_all
qed

lemma rne_of_int [simp]: "rne (of_int k) = k"
  by (simp add: rne_def)

lemma rne_mono: "x \<le> y \<Longrightarrow> rne x \<le> rne y"
proof -
  assume xy: "x \<le> y"
  then have f: "\<lfloor>x\<rfloor> \<le> \<lfloor>y\<rfloor>" by (rule floor_mono)
  have ub: "rne x \<le> \<lfloor>x\<rfloor> + 1" by (simp add: rne_def Let_def)
  have lb: "\<lfloor>y\<rfloor> \<le> rne y" by (simp add: rne_def Let_def)
  show ?thesis
  proof (cases "\<lfloor>x\<rfloor> = \<lfloor>y\<rfloor>")
    case True
    then have "x - of_int \<lfloor>x\<rfloor> \<le> y - of_int \<lfloor>y\<rfloor>" using xy by simp
    then show ?thesis using True by (auto simp: rne_def Let_def)
  next
    case False
    then show ?thesis using f ub lb by linarith
  qed
qed

lemma ulp_pos [simp]: "0 < ulp x"
  by (simp add: ulp_def)

lemma ulp_nonneg [simp]: "0 \<le> ulp x"
  by (rule less_imp_le) (rule ulp_pos)

lemma pow2_split: "(2::rat) powi (e - 52) * 2 ^ 52 = 2 powi e"
proof -
  have "(2::rat) powi ((e - 52) + 52) = 2 powi (e - 52) * 2 powi 52"
    by (rule power_int_add) simp
  then show ?thesis by simp
qed

lemma pow2_mono: "a \<le> b \<Longrightarrow> (2::rat) powi a \<le> 2 powi b"
  by (rule power_int_increasing) simp_all

lemma pow2_less_cancel: "(2::rat) powi a < 2 powi b \<Longrightarrow> a < b"
  using pow2_mono [of b a] by (cases "a < b") auto

lemma uexp_mono:
  assumes "0 < x" "x \<le> y"
  shows "uexp x \<le> uexp y"
proof -
  have "2 powi ilog2 x \<le> x" using assms(1) by (rule ilog2_bracket)
  also have "x \<le> y" by fact
  also have "y < 2 powi (ilog2 y + 1)" using assms by (intro ilog2_bracket) simp
  finally have "ilog2 x < ilog2 y + 1" by (rule pow2_less_cancel)
  then show ?thesis by (simp add: uexp_def)
qed

lemma flpos_upper:
  assumes "0 < x"
  shows "flpos x \<le> 2 powi (uexp x + 1)"
proof -
  have "x < 2 powi (ilog2 x + 1)" using assms by (rule ilog2_bracket)
  also have "\<dots> \<le> 2 powi (uexp x + 1)" by (rule pow2_mono) (simp add: uexp_def)
  finally have "x < 2 powi (uexp x + 1)" .
  also have "\<dots> = 2 powi (uexp x) * 2" by (rule power_int_add_1) simp
  also have "\<dots> = ulp x * 2 ^ 53" by (simp add: ulp_def flip: pow2_split [of "uexp x"])
  finally have "x / ulp x \<le> of_int (2 ^ 53)" by (simp add: field_simps)
  then have "rne (x / ulp x) \<le> rne (of_int (2 ^ 53))" by (rule rne_mono)
  then have "rne (x / ulp x) \<le> 2 ^ 53" by (simp only: rne_of_int)
  then have "of_int (rne (x / ulp x)) \<le> (2 ^ 53 :: rat)"
    by (metis of_int_le_iff of_int_numeral of_int_power)
  then have "flpos x \<le> 2 ^ 53 * ulp x" by (simp add: flpos_def)
  also have "\<dots> = 2 powi (uexp x) * 2" by (simp add: ulp_def flip: pow2_split [of "uexp x"])
  also have "\<dots> = 2 powi (uexp x + 1)" by (rule power_int_add_1 [symmetric]) simp
  finally show ?thesis .
qed

lemma flpos_lower:
  assumes "2 powi uexp x \<le> x"
  shows "2 powi uexp x \<le> flpos x"
proof -
  have "ulp x * 2 ^ 52 \<le> x" using assms by (simp only: ulp_def pow2_split)
  then have "of_int (2 ^ 52) \<le> x / ulp x" by (simp add: field_simps)
  then have "rne (of_int (2 ^ 52)) \<le> rne (x / ulp x)" by (rule rne_mono)
  then have "2 ^ 52 \<le> rne (x / ulp x)" by (simp only: rne_of_int)
  then have "(2 ^ 52 :: rat) \<le> of_int (rne (x / ulp x))"
    by (metis of_int_le_iff of_int_numeral of_int_power)
  then have "ulp x * 2 ^ 52 \<le> flpos x" by (simp add: flpos_def mult.commute)
  then show ?thesis by (simp only: ulp_def pow2_split)
qed

lemma flpos_mono:
  assumes "0 < x" "x \<le> y"
  shows "flpos x \<le> flpos y"
proof (cases "uexp x = uexp y")
  case True
  then have u: "ulp x = ulp y" by (simp add: ulp_def)
  have "x / ulp y \<le> y / ulp y" using assms by (intro divide_right_mono) simp_all
  then have "rne (x / ulp y) \<le> rne (y / ulp y)" by (rule rne_mono)
  then show ?thesis by (simp add: flpos_def u)
next
  case False
  with uexp_mono [OF assms] have lt: "uexp x + 1 \<le> uexp y" by simp
  then have "ilog2 y = uexp y" by (simp add: uexp_def split: if_splits)
  moreover have "2 powi ilog2 y \<le> y" using assms by (intro ilog2_bracket) simp
  ultimately have "2 powi uexp y \<le> flpos y" by (intro flpos_lower) simp
  moreover have "flpos x \<le> 2 powi (uexp x + 1)" using assms(1) by (rule flpos_upper)
  moreover have "(2::rat) powi (uexp x + 1) \<le> 2 powi uexp y" using lt by (rule pow2_mono)
  ultimately show ?thesis by linarith
qed

lemma flpos_0 [simp]: "flpos 0 = 0"
  using rne_of_int [of 0] by (simp add: flpos_def)

lemma flpos_nonneg: "0 \<le> x \<Longrightarrow> 0 \<le> flpos x"
proof -
  assume "0 \<le> x"
  then have "0 \<le> x / ulp x" by (intro divide_nonneg_pos) simp_all
  then have "rne 0 \<le> rne (x / ulp x)" by (rule rne_mono)
  then have "0 \<le> rne (x / ulp x)" using rne_of_int [of 0] by simp
  then show ?thesis by (simp add: flpos_def)
qed

text \<open>Rounding is monotone.\<close>

lemma fl_mono: "x \<le> y \<Longrightarrow> fl x \<le> fl y"
proof -
  assume xy: "x \<le> y"
  consider "y < 0" | "x < 0" "0 \<le> y" | "x = 0" | "0 < x" by linarith
  then show ?thesis
  proof cases
    case 1
    then have "flpos (- y) \<le> flpos (- x)" using xy by (intro flpos_mono) simp_all
    then show ?thesis using 1 xy by (simp add: fl_def)
  next
    case 2
    then have "0 \<le> flpos (- x)" "0 \<le> flpos y" by (simp_all add: flpos_nonneg)
    then show ?thesis using 2 by (simp add: fl_def)
  next
    case 3
    then show ?thesis using xy by (simp add: fl_def flpos_nonneg)
  next
    case 4
    then have "flpos x \<le> flpos y" using xy by (intro flpos_mono)
    then show ?thesis using 4 xy by (simp add: fl_def)
  qed
qed

text \<open>A number with at most 53 significant bits is its own rounding.\<close>

lemma flpos_exact:
  assumes k: "0 < k" "k < 2 ^ 53" and j: "j \<le> 1074"
  shows "flpos (of_int k / 2 ^ j) = of_int k / 2 ^ j"
proof -
  define x :: rat where "x = of_int k / 2 ^ j"
  have xpos: "0 < x" using k by (simp add: x_def)
  have "of_int k < (of_int (2 ^ 53) :: rat)" using k(2) by (simp only: of_int_less_iff)
  then have "x < 2 ^ 53 / 2 ^ j" by (simp add: x_def divide_strict_right_mono)
  also have "\<dots> = 2 powi (53 - int j)"
    by (simp add: power_int_diff)
  finally have "x < 2 powi (53 - int j)" .
  moreover have "2 powi ilog2 x \<le> x" using xpos by (rule ilog2_bracket)
  ultimately have "(2::rat) powi ilog2 x < 2 powi (53 - int j)" by linarith
  then have "ilog2 x < 53 - int j" by (rule pow2_less_cancel)
  then have le: "uexp x - 52 \<le> - int j" using j by (simp add: uexp_def)
  define m where "m = nat (- (uexp x - 52))"
  have mj: "j \<le> m" using le by (simp add: m_def)
  have "uexp x - 52 = - int m" using le by (simp add: m_def)
  then have u: "ulp x = 1 / 2 ^ m"
    by (simp add: ulp_def power_int_minus divide_inverse)
  have pw: "(2::rat) ^ m = 2 ^ (m - j) * 2 ^ j" using mj by (simp flip: power_add)
  have "x / ulp x = x * 2 ^ m" by (simp add: u)
  also have "\<dots> = of_int k / 2 ^ j * (2 ^ (m - j) * 2 ^ j)" by (simp only: x_def pw)
  also have "\<dots> = of_int (k * 2 ^ (m - j))" by simp
  finally have q: "x / ulp x = of_int (k * 2 ^ (m - j))" .
  have "flpos x = of_int (rne (x / ulp x)) * ulp x" by (simp only: flpos_def)
  also have "\<dots> = of_int (k * 2 ^ (m - j)) * ulp x" by (simp only: q rne_of_int)
  also have "\<dots> = of_int (k * 2 ^ (m - j)) * (1 / 2 ^ m)" by (simp only: u)
  also have "\<dots> = of_int (k * 2 ^ (m - j)) * (1 / (2 ^ (m - j) * 2 ^ j))" by (simp only: pw)
  also have "\<dots> = of_int k / 2 ^ j" by simp
  finally show ?thesis by (simp only: x_def)
qed

lemma fl_exact:
  assumes "\<bar>k\<bar> < 2 ^ 53" "j \<le> 1074"
  shows "fl (of_int k / 2 ^ j) = of_int k / 2 ^ j"
proof -
  consider "k < 0" | "k = 0" | "0 < k" by linarith
  then show ?thesis
  proof cases
    case 1
    then have "flpos (of_int (- k) / 2 ^ j) = of_int (- k) / 2 ^ j"
      using assms by (intro flpos_exact) simp_all
    moreover have "of_int k / (2::rat) ^ j < 0" using 1 by (simp add: divide_neg_pos)
    ultimately show ?thesis by (simp add: fl_def)
  next
    case 2
    then show ?thesis by (simp add: fl_def)
  next
    case 3
    then have "flpos (of_int k / 2 ^ j) = of_int k / 2 ^ j"
      using assms by (intro flpos_exact) simp_all
    moreover have "\<not> of_int k / (2::rat) ^ j < 0" using 3 by (simp add: not_less)
    ultimately show ?thesis by (simp add: fl_def)
  qed
qed

lemma fl_of_int: "\<bar>k\<bar> < 2 ^ 53 \<Longrightarrow> fl (of_int k) = of_int k"
  using fl_exact [of k 0] by simp

section \<open>URL aggregation: range, status and the blacklist rule\<close>

lemma clamp_score_range: "0 \<le> clamp_score s \<and> clamp_score s \<le> 100"
  by (simp add: clamp_score_def)

lemma determine_status_thresholds:
  "determine_status s = (if s < 25 then ''legitimate'' else if s < 60 then ''suspicious''
                         else ''risky'')"
  by (simp add: determine_status_def RISK_THRESHOLDS_def)

lemma unknown_url_score:
  "calculate_weighted_risk_score ''http://a.test'' domain_unknown content_empty
     reputation_unknown visual_empty network_unreachable None
   = (55, ''Medium risk - No SSL certificate; Site unreachable'')"
  by code_simp

text \<open>
  Claim C1.  For all feature dictionaries and every optional classifier probability, the
  score returned by calculate\_weighted\_risk\_score lies between 0 and 100, and the status
  that check\_url\_risk derives from it is the function of the score given by the fixed
  thresholds: legitimate below 25, suspicious from 25 and below 60, risky from 60 on.
\<close>

theorem C1_score_range_and_status:
  "(case calculate_weighted_risk_score url domain_f content_f reputation_f visual_f
           network_f ml_prediction of
      (score, reason) \<Rightarrow>
        0 \<le> score \<and> score \<le> 100 \<and>
        determine_status score =
          (if score < 25 then ''legitimate''
           else if score < 60 then ''suspicious'' else ''risky''))"
  by (simp add: calculate_weighted_risk_score_def finish_def Let_def clamp_score_range
      determine_status_thresholds)

theorem C1_score_range_and_status_witness:
  "fst (calculate_weighted_risk_score ''http://a.test'' domain_unknown content_empty
          reputation_unknown visual_empty network_unreachable None) = 55
   \<and> determine_status 55 = ''suspicious''"
  using C1_score_range_and_status [of "''http://a.test''" domain_unknown content_empty
      reputation_unknown visual_empty network_unreachable None]
  by (simp add: unknown_url_score)

text \<open>
  Claim C2.  When the reputation record has is\_on\_blacklist or is\_gsb\_threat true, the
  aggregation returns the score 90 with the one blacklist reason, whatever the other
  feature dictionaries and the classifier probability are: no other rule and no blend
  contributes.  The status of 90 is risky.
\<close>

theorem C2_blacklist_short_circuit:
  assumes "truthy (is_on_blacklist reputation_f) \<or> truthy (is_gsb_threat reputation_f)"
  shows "calculate_weighted_risk_score url domain_f content_f reputation_f visual_f
           network_f ml_prediction = (90, ''Blacklisted or known threat detected'')
         \<and> determine_status 90 = ''risky''"
  using assms by (simp add: calculate_weighted_risk_score_def determine_status_thresholds)

theorem C2_blacklist_short_circuit_witness:
  "truthy (is_on_blacklist reputation_blacklisted)
   \<and> calculate_weighted_risk_score ''http://a.test'' domain_unknown content_empty
        reputation_blacklisted visual_empty network_unreachable (Some (1 / 10))
      = (90, ''Blacklisted or known threat detected'')"
proof -
  have h: "truthy (is_on_blacklist reputation_blacklisted)"
    by (simp add: truthy_def reputation_blacklisted_def)
  then have "truthy (is_on_blacklist reputation_blacklisted)
             \<or> truthy (is_gsb_threat reputation_blacklisted)" ..
  from C2_blacklist_short_circuit [OF this] h show ?thesis by simp
qed

section \<open>The accumulator as a sum of rule contributions\<close>

lemma merge_acc0 [simp]: "merge a acc0 = a" "merge acc0 a = a"
  by (simp_all add: merge_def acc0_def)

lemma merge_fields [simp]:
  "risk_score (merge a b) = risk_score a + risk_score b"
  "risk_components (merge a b) = risk_components a @ risk_components b"
  "positive_signals (merge a b) = positive_signals a @ positive_signals b"
  "ledger (merge a b) = ledger a @ ledger b"
  by (simp_all add: merge_def)

lemma phi_merge [simp]: "phi (merge a b) = phi a + phi b"
  by (simp add: phi_def)

lemma ledger_total_merge [simp]: "ledger_total (merge a b) = ledger_total a + ledger_total b"
  by (simp add: ledger_total_def)

lemma add_risk_merge: "add_risk k m a = merge a (add_risk k m acc0)"
  by (simp add: add_risk_def merge_def acc0_def)

lemma add_positive_merge: "add_positive k m a = merge a (add_positive k m acc0)"
  by (simp add: add_positive_def merge_def acc0_def)

lemma bump_merge: "bump k a = merge a (bump k acc0)"
  by (simp add: bump_def merge_def acc0_def)

lemma rule_reputation_merge: "rule_reputation f a = merge a (rule_reputation f acc0)"
  unfolding rule_reputation_def Let_def
  by (simp add: add_risk_merge [of _ _ a] add_positive_merge [of _ _ a])

lemma rule_domain_age_merge: "rule_domain_age f a = merge a (rule_domain_age f acc0)"
  unfolding rule_domain_age_def Let_def
  by (simp add: add_risk_merge [of _ _ a] add_positive_merge [of _ _ a] bump_merge [of _ a])

lemma rule_ssl_merge: "rule_ssl f a = merge a (rule_ssl f acc0)"
  unfolding rule_ssl_def
  by (simp add: add_risk_merge [of _ _ a] add_positive_merge [of _ _ a])

lemma rule_suspicious_tld_merge: "rule_suspicious_tld f a = merge a (rule_suspicious_tld f acc0)"
  unfolding rule_suspicious_tld_def by (simp add: add_risk_merge [of _ _ a])

lemma rule_uses_ip_merge: "rule_uses_ip f a = merge a (rule_uses_ip f acc0)"
  unfolding rule_uses_ip_def by (simp add: add_risk_merge [of _ _ a])

lemma rule_security_headers_merge:
  "rule_security_headers f a = merge a (rule_security_headers f acc0)"
  unfolding rule_security_headers_def Let_def
  by (simp add: add_risk_merge [of _ _ a] add_positive_merge [of _ _ a])

lemma rule_redirects_merge: "rule_redirects f a = merge a (rule_redirects f acc0)"
  unfolding rule_redirects_def by (simp add: add_risk_merge [of _ _ a])

lemma rule_dns_merge: "rule_dns f a = merge a (rule_dns f acc0)"
  unfolding rule_dns_def Let_def by (simp add: add_positive_merge [of _ _ a])

lemma merge_assoc: "merge (merge a b) c = merge a (merge b c)"
  by (simp add: merge_def)

lemma rule_network_split:
  "rule_network f a =
     merge a (if truthy (is_reachable f)
              then merge (rule_security_headers f acc0)
                     (merge (rule_redirects f acc0) (rule_dns f acc0))
              else add_risk 20 ''Site unreachable'' acc0)"
proof (cases "truthy (is_reachable f)")
  case True
  have "rule_dns f (rule_redirects f (rule_security_headers f a)) =
        merge (merge (merge a (rule_security_headers f acc0)) (rule_redirects f acc0))
          (rule_dns f acc0)"
    apply (subst rule_dns_merge)
    apply (subst rule_redirects_merge)
    apply (subst rule_security_headers_merge)
    apply (rule refl)
    done
  then show ?thesis using True by (simp add: rule_network_def merge_assoc)
next
  case False
  then show ?thesis by (simp add: rule_network_def add_risk_merge [of _ _ a])
qed

lemma rule_network_merge: "rule_network f a = merge a (rule_network f acc0)"
  by (simp add: rule_network_split [of f a] rule_network_split [of f acc0])

lemma rule_content_risk_merge: "rule_content_risk f a = merge a (rule_content_risk f acc0)"
  unfolding rule_content_risk_def Let_def by (simp add: add_risk_merge [of _ _ a])

lemma rule_keywords_merge: "rule_keywords f a = merge a (rule_keywords f acc0)"
  unfolding rule_keywords_def Let_def by (simp add: add_risk_merge [of _ _ a])

lemma rule_brand_url_merge: "rule_brand_url f a = merge a (rule_brand_url f acc0)"
  unfolding rule_brand_url_def Let_def by (simp add: add_risk_merge [of _ _ a])

lemma rule_visual_brand_merge: "rule_visual_brand f a = merge a (rule_visual_brand f acc0)"
  unfolding rule_visual_brand_def Let_def by (simp add: add_risk_merge [of _ _ a])

lemma rule_visual_similarity_merge:
  "rule_visual_similarity f a = merge a (rule_visual_similarity f acc0)"
  unfolding rule_visual_similarity_def Let_def by (simp add: add_risk_merge [of _ _ a])

lemma later_rules_split:
  "later_rules domain_f content_f visual_f network_f a =
     merge a (merge (rule_domain_age domain_f acc0) (merge (rule_ssl domain_f acc0)
       (merge (rule_suspicious_tld domain_f acc0) (merge (rule_uses_ip domain_f acc0)
       (merge (rule_network network_f acc0) (merge (rule_content_risk content_f acc0)
       (merge (rule_keywords content_f acc0) (merge (rule_brand_url content_f acc0)
       (merge (rule_visual_brand visual_f acc0)
          (rule_visual_similarity visual_f acc0))))))))))"
  unfolding later_rules_def
  apply (subst rule_visual_similarity_merge)
  apply (subst rule_visual_brand_merge)
  apply (subst rule_brand_url_merge)
  apply (subst rule_keywords_merge)
  apply (subst rule_content_risk_merge)
  apply (subst rule_network_merge)
  apply (subst rule_uses_ip_merge)
  apply (subst rule_suspicious_tld_merge)
  apply (subst rule_ssl_merge)
  apply (subst rule_domain_age_merge)
  apply (simp only: merge_assoc)
  done

lemma rule_based_split:
  "rule_based domain_f content_f reputation_f visual_f network_f =
     merge (rule_reputation reputation_f acc0)
       (later_rules domain_f content_f visual_f network_f acc0)"
proof -
  have "rule_based domain_f content_f reputation_f visual_f network_f =
        later_rules domain_f content_f visual_f network_f (rule_reputation reputation_f acc0)"
    by (simp add: rule_based_def later_rules_def)
  also have "\<dots> = merge (rule_reputation reputation_f acc0)
                     (later_rules domain_f content_f visual_f network_f acc0)"
    by (simp only: later_rules_split [of _ _ _ _ "rule_reputation reputation_f acc0"]
        later_rules_split [of _ _ _ _ acc0] merge_acc0)
  finally show ?thesis .
qed


lemmas step_defs = add_risk_def add_positive_def bump_def acc0_def phi_def ledger_total_def

lemma rule_reputation_facts:
  "0 \<le> risk_score (rule_reputation f acc0)" "risk_score (rule_reputation f acc0) \<le> 60"
  "10 \<le> phi (rule_reputation f acc0)"
  "ledger_total (rule_reputation f acc0) = risk_score (rule_reputation f acc0)"
  by (simp_all add: rule_reputation_def Let_def step_defs)

lemma rule_domain_age_facts:
  "- 15 \<le> risk_score (rule_domain_age f acc0)" "risk_score (rule_domain_age f acc0) \<le> 30"
  "- 5 \<le> phi (rule_domain_age f acc0)"
  "risk_score (rule_domain_age f acc0)
     = ledger_total (rule_domain_age f acc0) + unrecorded_age_change f"
  by (simp_all add: rule_domain_age_def unrecorded_age_change_def Let_def step_defs)

lemma rule_ssl_facts:
  "0 \<le> risk_score (rule_ssl f acc0)" "risk_score (rule_ssl f acc0) \<le> 25"
  "10 \<le> phi (rule_ssl f acc0)"
  "ledger_total (rule_ssl f acc0) = risk_score (rule_ssl f acc0)"
  by (simp_all add: rule_ssl_def step_defs)

lemma rule_suspicious_tld_facts:
  "0 \<le> risk_score (rule_suspicious_tld f acc0)" "risk_score (rule_suspicious_tld f acc0) \<le> 15"
  "0 \<le> phi (rule_suspicious_tld f acc0)"
  "ledger_total (rule_suspicious_tld f acc0) = risk_score (rule_suspicious_tld f acc0)"
  by (simp_all add: rule_suspicious_tld_def step_defs)

lemma rule_uses_ip_facts:
  "0 \<le> risk_score (rule_uses_ip f acc0)" "risk_score (rule_uses_ip f acc0) \<le> 20"
  "0 \<le> phi (rule_uses_ip f acc0)"
  "ledger_total (rule_uses_ip f acc0) = risk_score (rule_uses_ip f acc0)"
  by (simp_all add: rule_uses_ip_def step_defs)

lemma rule_security_headers_facts:
  "- 10 \<le> risk_score (rule_security_headers f acc0)"
  "risk_score (rule_security_headers f acc0) \<le> 10"
  "0 \<le> phi (rule_security_headers f acc0)"
  "ledger_total (rule_security_headers f acc0) = risk_score (rule_security_headers f acc0)"
  by (simp_all add: rule_security_headers_def Let_def step_defs)

lemma rule_redirects_facts:
  "0 \<le> risk_score (rule_redirects f acc0)" "risk_score (rule_redirects f acc0) \<le> 15"
  "0 \<le> phi (rule_redirects f acc0)"
  "ledger_total (rule_redirects f acc0) = risk_score (rule_redirects f acc0)"
  by (simp_all add: rule_redirects_def step_defs)

lemma rule_dns_facts:
  "- 5 \<le> risk_score (rule_dns f acc0)" "risk_score (rule_dns f acc0) \<le> 0"
  "0 \<le> phi (rule_dns f acc0)"
  "ledger_total (rule_dns f acc0) = risk_score (rule_dns f acc0)"
  by (simp_all add: rule_dns_def Let_def step_defs)

lemma rule_network_facts:
  "- 15 \<le> risk_score (rule_network f acc0)" "risk_score (rule_network f acc0) \<le> 25"
  "0 \<le> phi (rule_network f acc0)"
  "ledger_total (rule_network f acc0) = risk_score (rule_network f acc0)"
proof -
  note sh = rule_security_headers_facts [of f] and rd = rule_redirects_facts [of f]
    and dn = rule_dns_facts [of f]
  have u: "risk_score (add_risk 20 ''Site unreachable'' acc0) = 20"
    "phi (add_risk 20 ''Site unreachable'' acc0) = 10"
    "ledger_total (add_risk 20 ''Site unreachable'' acc0) = 20"
    by (simp_all add: step_defs)
  show "- 15 \<le> risk_score (rule_network f acc0)" "risk_score (rule_network f acc0) \<le> 25"
    "0 \<le> phi (rule_network f acc0)"
    "ledger_total (rule_network f acc0) = risk_score (rule_network f acc0)"
    using sh rd dn u by (simp_all add: rule_network_split [of f acc0])
qed

lemma rule_content_risk_facts:
  "0 \<le> risk_score (rule_content_risk f acc0)" "risk_score (rule_content_risk f acc0) \<le> 20"
  "0 \<le> phi (rule_content_risk f acc0)"
  "ledger_total (rule_content_risk f acc0) = risk_score (rule_content_risk f acc0)"
  by (simp_all add: rule_content_risk_def Let_def step_defs)

lemma rule_keywords_facts:
  "0 \<le> risk_score (rule_keywords f acc0)" "risk_score (rule_keywords f acc0) \<le> 15"
  "- 5 \<le> phi (rule_keywords f acc0)"
  "ledger_total (rule_keywords f acc0) = risk_score (rule_keywords f acc0)"
  by (simp_all add: rule_keywords_def Let_def step_defs)

lemma rule_brand_url_facts:
  "0 \<le> risk_score (rule_brand_url f acc0)" "risk_score (rule_brand_url f acc0) \<le> 25"
  "0 \<le> phi (rule_brand_url f acc0)"
  "ledger_total (rule_brand_url f acc0) = risk_score (rule_brand_url f acc0)"
  by (simp_all add: rule_brand_url_def Let_def step_defs)

lemma rule_visual_brand_facts:
  "0 \<le> risk_score (rule_visual_brand f acc0)" "risk_score (rule_visual_brand f acc0) \<le> 30"
  "0 \<le> phi (rule_visual_brand f acc0)"
  "ledger_total (rule_visual_brand f acc0) = risk_score (rule_visual_brand f acc0)"
  by (simp_all add: rule_visual_brand_def Let_def step_defs)

lemma rule_visual_similarity_facts:
  "0 \<le> risk_score (rule_visual_similarity f acc0)"
  "risk_score (rule_visual_similarity f acc0) \<le> 25"
  "0 \<le> phi (rule_visual_similarity f acc0)"
  "ledger_total (rule_visual_similarity f acc0) = risk_score (rule_visual_similarity f acc0)"
  by (simp_all add: rule_visual_similarity_def Let_def step_defs)

lemma later_rules_facts:
  "- 30 \<le> risk_score (later_rules domain_f content_f visual_f network_f acc0)"
  "risk_score (later_rules domain_f content_f visual_f network_f acc0) \<le> 230"
  "0 \<le> phi (later_rules domain_f content_f visual_f network_f acc0)"
  "risk_score (later_rules domain_f content_f visual_f network_f acc0)
     = ledger_total (later_rules domain_f content_f visual_f network_f acc0)
       + unrecorded_age_change domain_f"
  using rule_domain_age_facts [of domain_f] rule_ssl_facts [of domain_f]
    rule_suspicious_tld_facts [of domain_f] rule_uses_ip_facts [of domain_f]
    rule_network_facts [of network_f] rule_content_risk_facts [of content_f]
    rule_keywords_facts [of content_f] rule_brand_url_facts [of content_f]
    rule_visual_brand_facts [of visual_f] rule_visual_similarity_facts [of visual_f]
  by (simp_all add: later_rules_split [of _ _ _ _ acc0])

lemma rule_based_facts:
  "- 30 \<le> risk_score (rule_based domain_f content_f reputation_f visual_f network_f)"
  "risk_score (rule_based domain_f content_f reputation_f visual_f network_f) \<le> 290"
  "10 \<le> phi (rule_based domain_f content_f reputation_f visual_f network_f)"
  "risk_score (rule_based domain_f content_f reputation_f visual_f network_f)
     = ledger_total (rule_based domain_f content_f reputation_f visual_f network_f)
       + unrecorded_age_change domain_f"
  using later_rules_facts [of domain_f content_f visual_f network_f]
    rule_reputation_facts [of reputation_f]
  by (simp_all add: rule_based_split)

section \<open>The classifier blend is monotone in the rule-based score\<close>

lemma py_int_mono: "x \<le> y \<Longrightarrow> py_int x \<le> py_int y"
proof -
  assume xy: "x \<le> y"
  consider "0 \<le> x" | "x < 0" "0 \<le> y" | "y < 0" by linarith
  then show ?thesis
  proof cases
    case 1
    then show ?thesis using xy by (simp add: py_int_def floor_mono)
  next
    case 2
    then have "\<lceil>x\<rceil> \<le> 0" "0 \<le> \<lfloor>y\<rfloor>" by (simp_all add: ceiling_le_iff)
    moreover have "py_int x = \<lceil>x\<rceil>" "py_int y = \<lfloor>y\<rfloor>" using 2 by (simp_all add: py_int_def)
    ultimately show ?thesis by linarith
  next
    case 3
    then show ?thesis using xy by (simp add: py_int_def ceiling_mono)
  qed
qed

lemma py_int_of_int [simp]: "py_int (of_int k) = k"
  by (simp add: py_int_def)

lemma clamp_score_mono: "s \<le> t \<Longrightarrow> clamp_score s \<le> clamp_score t"
  by (simp add: clamp_score_def)

lemma clamp_score_top: "100 \<le> t \<Longrightarrow> clamp_score s \<le> clamp_score t"
  by (simp add: clamp_score_def)

lemma clamp_score_bottom: "s \<le> 0 \<Longrightarrow> clamp_score s \<le> clamp_score t"
  by (simp add: clamp_score_def)

lemma W15_bounds: "1 / 8 \<le> fl (15 / 100)" "fl (15 / 100) \<le> 1 / 4"
  by code_simp+

lemma A15_bounds: "3 / 4 \<le> fl (1 - fl (15 / 100))" "fl (1 - fl (15 / 100)) \<le> 7 / 8"
  by code_simp+

lemma W25_value: "fl (25 / 100) = 1 / 4"
  by code_simp

lemma A25_value: "fl (1 - fl (25 / 100)) = 3 / 4"
  by code_simp

lemma float_of_int_mono: "a \<le> b \<Longrightarrow> float_of_int a \<le> float_of_int b"
  by (simp add: float_of_int_def fl_mono)

lemma float_of_int_exact: "\<bar>k\<bar> < 2 ^ 53 \<Longrightarrow> float_of_int k = of_int k"
  by (simp add: float_of_int_def fl_of_int)

lemma fl_quarters: "\<bar>k\<bar> < 2 ^ 53 \<Longrightarrow> fl (of_int k / 4) = of_int k / 4"
  using fl_exact [of k 2] by simp

lemma fl_eighths: "\<bar>k\<bar> < 2 ^ 53 \<Longrightarrow> fl (of_int k / 8) = of_int k / 8"
  using fl_exact [of k 3] by simp

lemma fl_0 [simp]: "fl 0 = 0"
  by (simp add: fl_def)

lemma fl_nonneg: "0 \<le> x \<Longrightarrow> 0 \<le> fl x"
  using fl_mono [of 0 x] by simp

lemma blend_mono:
  assumes "x0 \<le> x1" "y0 \<le> y1"
  shows "py_int (fl (fl x0 + fl y0)) \<le> py_int (fl (fl x1 + fl y1))"
proof -
  have "fl x0 + fl y0 \<le> fl x1 + fl y1" using assms by (intro add_mono fl_mono)
  then show ?thesis by (intro py_int_mono fl_mono)
qed

lemma blend_mono_score:
  assumes "s \<le> t" "0 \<le> fl (1 - w)"
  shows "blend w s m \<le> blend w t m"
proof -
  have "fl (1 - w) * float_of_int s \<le> fl (1 - w) * float_of_int t"
    using assms by (intro mult_left_mono float_of_int_mono)
  then show ?thesis unfolding blend_def by (intro blend_mono order_refl)
qed

lemma A25_value': "fl (1 - 1 / 4) = 3 / 4"
  by code_simp

lemma blend_quarter:
  "blend (fl (25 / 100)) s m
     = py_int (fl (fl (3 / 4 * float_of_int s) + fl (1 / 4 * float_of_int m)))"
  by (simp only: blend_def W25_value A25_value')

lemma fl_three_quarters:
  assumes "\<bar>s\<bar> \<le> 2000"
  shows "fl (3 / 4 * of_int s) = 3 / 4 * of_int s"
proof -
  have e: "3 / 4 * of_int s = (of_int (3 * s) / 4 :: rat)" by simp
  have "fl (of_int (3 * s) / 4) = of_int (3 * s) / 4"
    using assms by (intro fl_quarters) simp
  then show ?thesis by (simp only: e)
qed

lemma fl_seven_eighths:
  assumes "\<bar>s\<bar> \<le> 2000"
  shows "fl (7 / 8 * of_int s) = 7 / 8 * of_int s"
proof -
  have e: "7 / 8 * of_int s = (of_int (7 * s) / 8 :: rat)" by simp
  have "fl (of_int (7 * s) / 8) = of_int (7 * s) / 8"
    using assms by (intro fl_eighths) simp
  then show ?thesis by (simp only: e)
qed

lemma fl_int_value: "\<bar>k\<bar> < 2 ^ 53 \<Longrightarrow> fl (of_int k) = of_int k"
  by (rule fl_of_int)

text \<open>weight 0.15 before, 0.25 after, classifier risk above 60\<close>

lemma switch_up:
  assumes m: "60 < m" and s: "- 1000 \<le> s" "s \<le> 1000"
  shows "clamp_score (blend (fl (15 / 100)) s m)
           \<le> clamp_score (blend (fl (25 / 100)) (s + 20) m)"
proof -
  define fm where "fm = float_of_int m"
  define X0 where "X0 = fl (fl (1 - fl (15 / 100)) * of_int s)"
  define Y0 where "Y0 = fl (fl (15 / 100) * fm)"
  define X1 where "X1 = fl (3 / 4 * of_int (s + 20))"
  define Y1 where "Y1 = fl (1 / 4 * fm)"
  have fs: "float_of_int s = of_int s" "float_of_int (s + 20) = of_int (s + 20)"
    using s by (simp_all add: float_of_int_exact)
  have b0: "blend (fl (15 / 100)) s m = py_int (fl (X0 + Y0))"
    by (simp only: blend_def fs X0_def Y0_def fm_def)
  have b1: "blend (fl (25 / 100)) (s + 20) m = py_int (fl (X1 + Y1))"
    by (simp only: blend_quarter fs X1_def Y1_def fm_def)
  have "float_of_int 60 \<le> fm" unfolding fm_def using m by (intro float_of_int_mono) simp
  moreover have "float_of_int 60 = 60" using float_of_int_exact [of 60] by simp
  ultimately have fm: "0 \<le> fm" by simp
  have "fl (15 / 100) * fm \<le> 1 / 4 * fm"
    using W15_bounds(2) fm by (intro mult_right_mono)
  then have Y: "Y0 \<le> Y1" unfolding Y0_def Y1_def by (rule fl_mono)
  have "0 \<le> 1 / 4 * fm" using fm by simp
  then have Y1: "0 \<le> Y1" unfolding Y1_def by (rule fl_nonneg)
  have X1: "X1 = 3 / 4 * of_int (s + 20)"
    unfolding X1_def using s by (intro fl_three_quarters) simp
  show ?thesis
  proof (cases "s \<le> 120")
    case True
    have "X0 \<le> X1"
    proof (cases "0 \<le> s")
      case True
      then have "fl (1 - fl (15 / 100)) * of_int s \<le> 7 / 8 * of_int s"
        using A15_bounds(2) by (intro mult_right_mono) simp_all
      then have "X0 \<le> fl (7 / 8 * of_int s)" unfolding X0_def by (rule fl_mono)
      also have "\<dots> = 7 / 8 * of_int s" using s by (intro fl_seven_eighths) simp
      also have "\<dots> \<le> 3 / 4 * of_int (s + 20)" using \<open>s \<le> 120\<close> by simp
      finally show ?thesis by (simp only: X1)
    next
      case False
      then have "of_int s * fl (1 - fl (15 / 100)) \<le> of_int s * (3 / 4 :: rat)"
        using A15_bounds(1) by (intro mult_left_mono_neg) simp_all
      then have "fl (1 - fl (15 / 100)) * of_int s \<le> 3 / 4 * of_int s"
        by (simp only: mult.commute)
      then have "X0 \<le> fl (3 / 4 * of_int s)" unfolding X0_def by (rule fl_mono)
      also have "\<dots> = 3 / 4 * of_int s" using s by (intro fl_three_quarters) simp
      also have "\<dots> \<le> 3 / 4 * of_int (s + 20)" by simp
      finally show ?thesis by (simp only: X1)
    qed
    then have "X0 + Y0 \<le> X1 + Y1" using Y by simp
    then have "py_int (fl (X0 + Y0)) \<le> py_int (fl (X1 + Y1))"
      by (intro py_int_mono fl_mono)
    then show ?thesis unfolding b0 b1 by (rule clamp_score_mono)
  next
    case False
    then have "(105::rat) \<le> 3 / 4 * of_int (s + 20)" by simp
    then have "of_int 105 \<le> X1 + Y1" using Y1 X1 by simp
    then have "fl (of_int 105) \<le> fl (X1 + Y1)" by (rule fl_mono)
    moreover have "fl (of_int 105) = of_int 105" by (rule fl_of_int) simp
    ultimately have "py_int (of_int 105) \<le> py_int (fl (X1 + Y1))"
      by (intro py_int_mono) simp
    then have "105 \<le> py_int (fl (X1 + Y1))" by (simp only: py_int_of_int)
    then have "100 \<le> blend (fl (25 / 100)) (s + 20) m" unfolding b1 by simp
    then show ?thesis by (rule clamp_score_top)
  qed
qed

text \<open>weight 0.25 before, 0.15 after, classifier risk below 40\<close>

lemma switch_down:
  assumes m: "m < 40" and s: "- 1000 \<le> s" "s \<le> 1000"
  shows "clamp_score (blend (fl (25 / 100)) s m)
           \<le> clamp_score (blend (fl (15 / 100)) (s + 20) m)"
proof -
  define fm where "fm = float_of_int m"
  define X0 where "X0 = fl (3 / 4 * of_int s)"
  define Y0 where "Y0 = fl (1 / 4 * fm)"
  define X1 where "X1 = fl (fl (1 - fl (15 / 100)) * of_int (s + 20))"
  define Y1 where "Y1 = fl (fl (15 / 100) * fm)"
  have fs: "float_of_int s = of_int s" "float_of_int (s + 20) = of_int (s + 20)"
    using s by (simp_all add: float_of_int_exact)
  have b0: "blend (fl (25 / 100)) s m = py_int (fl (X0 + Y0))"
    by (simp only: blend_quarter fs X0_def Y0_def fm_def)
  have b1: "blend (fl (15 / 100)) (s + 20) m = py_int (fl (X1 + Y1))"
    by (simp only: blend_def fs X1_def Y1_def fm_def)
  have "fm \<le> float_of_int 39" unfolding fm_def using m by (intro float_of_int_mono) simp
  moreover have "float_of_int 39 = 39" using float_of_int_exact [of 39] by simp
  ultimately have fm: "fm \<le> 39" by simp
  have X0: "X0 = 3 / 4 * of_int s" unfolding X0_def using s by (intro fl_three_quarters) simp
  have "1 / 4 * fm \<le> of_int 39 / 4" using fm by simp
  then have "Y0 \<le> fl (of_int 39 / 4)" unfolding Y0_def by (rule fl_mono)
  moreover have "fl (of_int 39 / 4) = of_int 39 / 4" by (rule fl_quarters) simp
  ultimately have Y0: "Y0 \<le> 39 / 4" by simp
  show ?thesis
  proof (cases "s \<le> - 14")
    case True
    then have "3 / 4 * (of_int s :: rat) \<le> - 42 / 4" by simp
    then have "X0 + Y0 \<le> of_int (- 3) / 4" using Y0 X0 by simp
    then have "fl (X0 + Y0) \<le> fl (of_int (- 3) / 4)" by (rule fl_mono)
    moreover have "fl (of_int (- 3) / 4) = of_int (- 3) / 4" by (rule fl_quarters) simp
    ultimately have "fl (X0 + Y0) \<le> - 3 / 4" by simp
    then have "py_int (fl (X0 + Y0)) \<le> py_int (- 3 / 4)" by (rule py_int_mono)
    moreover have "py_int (- 3 / 4) = 0" by code_simp
    ultimately have "blend (fl (25 / 100)) s m \<le> 0" unfolding b0 by simp
    then show ?thesis by (rule clamp_score_bottom)
  next
    case False
    then have pos: "(0::rat) \<le> of_int (s + 20)" by simp
    have "3 / 4 * of_int (s + 20) \<le> fl (1 - fl (15 / 100)) * of_int (s + 20)"
      using A15_bounds(1) pos by (intro mult_right_mono)
    then have "fl (3 / 4 * of_int (s + 20)) \<le> X1" unfolding X1_def by (rule fl_mono)
    moreover have "fl (3 / 4 * of_int (s + 20)) = 3 / 4 * of_int (s + 20)"
      using s by (intro fl_three_quarters) simp
    ultimately have X1: "X0 + 15 \<le> X1" using X0 by simp
    have "X0 + Y0 \<le> X1 + Y1"
    proof (cases "0 \<le> fm")
      case True
      then have "0 \<le> fl (15 / 100) * fm"
        using W15_bounds(1) by (intro mult_nonneg_nonneg) simp_all
      then have "0 \<le> Y1" unfolding Y1_def by (rule fl_nonneg)
      then show ?thesis using X1 Y0 by simp
    next
      case False
      then have "fm * (1 / 4) \<le> fm * fl (15 / 100)"
        using W15_bounds(2) by (intro mult_left_mono_neg) simp_all
      then have "1 / 4 * fm \<le> fl (15 / 100) * fm" by (simp only: mult.commute)
      then have "Y0 \<le> Y1" unfolding Y0_def Y1_def by (rule fl_mono)
      then show ?thesis using X1 by simp
    qed
    then have "py_int (fl (X0 + Y0)) \<le> py_int (fl (X1 + Y1))"
      by (intro py_int_mono fl_mono)
    then show ?thesis unfolding b0 b1 by (rule clamp_score_mono)
  qed
qed

lemma same_weight_15:
  assumes "s \<le> t"
  shows "clamp_score (blend (fl (15 / 100)) s m) \<le> clamp_score (blend (fl (15 / 100)) t m)"
proof -
  have "0 \<le> fl (1 - fl (15 / 100))" using A15_bounds(1) by linarith
  with assms show ?thesis by (intro clamp_score_mono blend_mono_score)
qed

lemma same_weight_25:
  assumes "s \<le> t"
  shows "clamp_score (blend (fl (25 / 100)) s m) \<le> clamp_score (blend (fl (25 / 100)) t m)"
proof -
  have "(0::rat) \<le> 3 / 4" by simp
  then have "0 \<le> fl (1 - fl (25 / 100))" by (simp only: A25_value)
  with assms show ?thesis by (intro clamp_score_mono blend_mono_score)
qed

lemma final_score_mono:
  assumes "s \<le> t"
  shows "final_score s n_risk n_positive ml \<le> final_score t n_risk n_positive ml"
proof (cases ml)
  case None
  then show ?thesis using assms by (simp add: final_score_def clamp_score_mono)
next
  case (Some p)
  then show ?thesis
    using same_weight_15 [OF assms] same_weight_25 [OF assms]
    by (simp add: final_score_def ml_weight_of_def Let_def)
qed

lemma final_score_switch:
  assumes s: "- 1000 \<le> s" "s \<le> 1000"
  shows "final_score s n_risk (Suc n_positive) ml
           \<le> final_score (s + 20) (Suc n_risk) n_positive ml"
proof (cases ml)
  case None
  then show ?thesis by (simp add: final_score_def clamp_score_mono)
next
  case (Some p)
  define m where "m = py_int (fl (p * float_of_int 100))"
  have l: "final_score s n_risk (Suc n_positive) ml
             = clamp_score (blend (ml_weight_of (Suc n_positive) n_risk m) s m)"
    and r: "final_score (s + 20) (Suc n_risk) n_positive ml
             = clamp_score (blend (ml_weight_of n_positive (Suc n_risk) m) (s + 20) m)"
    by (simp_all add: final_score_def Some m_def Let_def)
  have le: "s \<le> s + 20" by simp
  consider "60 < m" "3 \<le> n_positive" | "60 < m" "n_positive = 2" | "60 < m" "n_positive < 2"
    | "m < 40" "3 \<le> n_risk" | "m < 40" "n_risk = 2" | "m < 40" "n_risk < 2"
    | "40 \<le> m" "m \<le> 60"
    by linarith
  then show ?thesis
  proof cases
    case 1
    then show ?thesis unfolding l r using same_weight_15 [OF le] by (simp add: ml_weight_of_def)
  next
    case 2
    then show ?thesis unfolding l r using switch_up [OF _ s, of m]
      by (simp add: ml_weight_of_def)
  next
    case 3
    then show ?thesis unfolding l r using same_weight_25 [OF le] by (simp add: ml_weight_of_def)
  next
    case 4
    then show ?thesis unfolding l r using same_weight_15 [OF le] by (simp add: ml_weight_of_def)
  next
    case 5
    then show ?thesis unfolding l r using switch_down [OF _ s, of m]
      by (simp add: ml_weight_of_def)
  next
    case 6
    then show ?thesis unfolding l r using same_weight_25 [OF le] by (simp add: ml_weight_of_def)
  next
    case 7
    then show ?thesis unfolding l r using same_weight_25 [OF le] by (simp add: ml_weight_of_def)
  qed
qed

lemma finish_final_score:
  "fst (finish a ml) = final_score (risk_score a) (length (risk_components a))
                         (length (positive_signals a)) ml"
  by (simp add: finish_def final_score_def ml_blend_def Let_def split: option.split)

lemma rule_reputation_delta:
  "risk_score (rule_reputation f acc0) =
     (let v = get_or (virustotal_positives f) 0
      in if v > 10 then 60 else if v > 5 then 40 else if v > 0 then 20 else 0)"
  "length (risk_components (rule_reputation f acc0)) =
     (if get_or (virustotal_positives f) 0 > 0 then 1 else 0)"
  "length (positive_signals (rule_reputation f acc0)) =
     (if get_or (virustotal_positives f) 0 > 0 then 0 else 1)"
  by (simp_all add: rule_reputation_def Let_def add_risk_def add_positive_def acc0_def)


text \<open>
  Claim C3.  Two inputs to the URL aggregation that agree on everything except that the
  second has at least as many VirusTotal detections as the first: the score of the second
  is at least the score of the first.  This holds across the tiers (above 0, 5 and 10
  detections), with or without a classifier probability, through the choice of the blend
  weight (the number of risk components rises and the number of positive signals falls when
  the first detection appears, which can move the weight between 0.15 and 0.25) and
  through the final clamp.  An absent key counts as 0 detections.
\<close>

theorem C3_more_detections_never_lower_score:
  assumes same: "is_on_blacklist r2 = is_on_blacklist r1" "is_gsb_threat r2 = is_gsb_threat r1"
    and more: "get_or (virustotal_positives r1) 0 \<le> get_or (virustotal_positives r2) 0"
  shows "fst (calculate_weighted_risk_score url domain_f content_f r1 visual_f network_f ml)
           \<le> fst (calculate_weighted_risk_score url domain_f content_f r2 visual_f network_f ml)"
proof (cases "truthy (is_on_blacklist r1) \<or> truthy (is_gsb_threat r1)")
  case True
  then show ?thesis using same by (simp add: calculate_weighted_risk_score_def)
next
  case False
  define L where "L = later_rules domain_f content_f visual_f network_f acc0"
  define sl where "sl = risk_score L"
  define nr where "nr = length (risk_components L)"
  define np where "np = length (positive_signals L)"
  define v1 where "v1 = get_or (virustotal_positives r1) 0"
  define v2 where "v2 = get_or (virustotal_positives r2) 0"
  define s1 where "s1 = risk_score (rule_reputation r1 acc0)"
  define s2 where "s2 = risk_score (rule_reputation r2 acc0)"
  have bounds: "- 30 \<le> sl" "sl \<le> 230"
    unfolding sl_def L_def by (rule later_rules_facts)+
  have c: "fst (calculate_weighted_risk_score url domain_f content_f r visual_f network_f ml)
           = final_score (risk_score (rule_reputation r acc0) + sl)
               (length (risk_components (rule_reputation r acc0)) + nr)
               (length (positive_signals (rule_reputation r acc0)) + np) ml"
    if "r = r1 \<or> r = r2" for r
    using that False same
    by (auto simp: calculate_weighted_risk_score_def finish_final_score rule_based_split
        L_def sl_def nr_def np_def)
  have sr: "0 \<le> s1" "s1 \<le> s2" "s2 \<le> 60"
    using more unfolding s1_def s2_def by (auto simp: rule_reputation_delta Let_def)
  consider "v2 \<le> 0" | "v1 \<le> 0" "0 < v2" | "0 < v1" using more v1_def v2_def by linarith
  then show ?thesis
  proof cases
    case 1
    then have "v1 \<le> 0" using more v1_def v2_def by linarith
    with 1 show ?thesis
      by (simp add: c rule_reputation_delta Let_def v1_def v2_def)
  next
    case 2
    then have "20 \<le> s2" unfolding s2_def v2_def by (simp add: rule_reputation_delta Let_def)
    have "final_score (0 + sl) (0 + nr) (Suc np) ml \<le> final_score (sl + 20) (Suc nr) np ml"
      using final_score_switch [of sl nr np ml] bounds by simp
    also have "\<dots> \<le> final_score (s2 + sl) (Suc nr) np ml"
      using \<open>20 \<le> s2\<close> by (intro final_score_mono) simp
    finally show ?thesis using 2
      by (simp add: c rule_reputation_delta Let_def v1_def v2_def s2_def)
  next
    case 3
    then have "0 < v2" using more v1_def v2_def by linarith
    have "final_score (s1 + sl) (Suc nr) np ml \<le> final_score (s2 + sl) (Suc nr) np ml"
      using sr by (intro final_score_mono) simp
    then show ?thesis using 3 \<open>0 < v2\<close>
      by (simp add: c rule_reputation_delta(2,3) v1_def v2_def s1_def s2_def)
  qed
qed

theorem C3_more_detections_never_lower_score_witness:
  "get_or (virustotal_positives reputation_unknown) 0
     \<le> get_or (virustotal_positives reputation_one_detection) 0
   \<and> fst (calculate_weighted_risk_score ''http://a.test'' domain_established
            content_suspicious reputation_unknown visual_similar network_one_header
            (Some (fl (9 / 10)))) = 22
   \<and> fst (calculate_weighted_risk_score ''http://a.test'' domain_established
            content_suspicious reputation_one_detection visual_similar network_one_header
            (Some (fl (9 / 10)))) = 45"
proof -
  have h: "is_on_blacklist reputation_one_detection = is_on_blacklist reputation_unknown"
    "is_gsb_threat reputation_one_detection = is_gsb_threat reputation_unknown"
    "get_or (virustotal_positives reputation_unknown) 0
       \<le> get_or (virustotal_positives reputation_one_detection) 0"
    by (simp_all add: reputation_unknown_def reputation_one_detection_def get_or_def)
  have a: "fst (calculate_weighted_risk_score ''http://a.test'' domain_established
            content_suspicious reputation_unknown visual_similar network_one_header
            (Some (fl (9 / 10)))) = 22"
    by code_simp
  have b: "fst (calculate_weighted_risk_score ''http://a.test'' domain_established
            content_suspicious reputation_one_detection visual_similar network_one_header
            (Some (fl (9 / 10)))) = 45"
    by code_simp
  from C3_more_detections_never_lower_score [OF h, of "''http://a.test''" domain_established
      content_suspicious visual_similar network_one_header "Some (fl (9 / 10))"] h(3) a b
  show ?thesis by simp
qed

section \<open>A URL about which nothing is known\<close>

lemma threshold_nonneg: "\<not> 0 > fl (7 / 10)" "\<not> 0 > fl (4 / 10)" "\<not> 0 > fl (8 / 10)"
  "\<not> 0 > fl (6 / 10)"
  by (simp_all add: not_less fl_nonneg)

lemma content_empty_rules:
  "rule_content_risk content_empty a = a" "rule_keywords content_empty a = a"
  "rule_brand_url content_empty a = a"
  using threshold_nonneg
  by (simp_all add: rule_content_risk_def rule_keywords_def rule_brand_url_def
      content_empty_def no_pattern_features_def get_or_def truthy_def)

lemma visual_empty_rules:
  "rule_visual_brand visual_empty a = a" "rule_visual_similarity visual_empty a = a"
  using threshold_nonneg
  by (simp_all add: rule_visual_brand_def rule_visual_similarity_def visual_empty_def
      no_brand_analysis_def get_or_def truthy_def)

lemma unknown_rule_based:
  assumes rep: "get_or (virustotal_positives reputation_f) 0 \<le> 0"
    and dom: "get_or (domain_age domain_f) (- 1) \<le> 0" "\<not> truthy (has_ssl domain_f)"
      "\<not> truthy (suspicious_tld domain_f)" "\<not> truthy (uses_ip domain_f)"
    and net: "\<not> truthy (is_reachable network_f)"
  shows "rule_based domain_f content_empty reputation_f visual_empty network_f =
           \<lparr>risk_score = 55, risk_components = [''No SSL certificate'', ''Site unreachable''],
            positive_signals = [''Clean reputation (0 detections)''],
            ledger = [(''Clean reputation (0 detections)'', 0), (''No SSL certificate'', 25),
                      (''Site unreachable'', 20)]\<rparr>"
proof -
  have 1: "rule_reputation reputation_f a = add_positive 0 ''Clean reputation (0 detections)'' a"
    for a using rep by (simp add: rule_reputation_def Let_def)
  have 2: "rule_domain_age domain_f a = bump 10 a" for a
    using dom(1) by (simp add: rule_domain_age_def Let_def)
  have 3: "rule_ssl domain_f a = add_risk 25 ''No SSL certificate'' a" for a
    using dom(2) by (simp add: rule_ssl_def)
  have 4: "rule_suspicious_tld domain_f a = a" "rule_uses_ip domain_f a = a" for a
    using dom(3,4) by (simp_all add: rule_suspicious_tld_def rule_uses_ip_def)
  have 5: "rule_network network_f a = add_risk 20 ''Site unreachable'' a" for a
    using net by (simp add: rule_network_def)
  show ?thesis
    by (simp add: rule_based_def 1 2 3 4 5 content_empty_rules visual_empty_rules
        add_risk_def add_positive_def bump_def acc0_def)
qed


lemma blend_quarter_exact:
  assumes "\<bar>s\<bar> \<le> 1000" "\<bar>m\<bar> \<le> 1000"
  shows "blend (fl (25 / 100)) s m = py_int (of_int (3 * s + m) / 4)"
proof -
  have fs: "float_of_int s = of_int s" "float_of_int m = of_int m"
    using assms by (simp_all add: float_of_int_exact)
  have x: "fl (3 / 4 * of_int s) = 3 / 4 * of_int s"
    using assms by (intro fl_three_quarters) simp
  have e: "1 / 4 * of_int m = (of_int m / 4 :: rat)" by simp
  have "fl (of_int m / 4) = of_int m / 4" using assms by (intro fl_quarters) simp
  then have y: "fl (1 / 4 * of_int m) = 1 / 4 * of_int m" by (simp only: e)
  have z: "3 / 4 * of_int s + 1 / 4 * of_int m = (of_int (3 * s + m) / 4 :: rat)" by simp
  have "fl (of_int (3 * s + m) / 4) = of_int (3 * s + m) / 4"
    using assms by (intro fl_quarters) simp
  then show ?thesis by (simp only: blend_quarter fs x y z)
qed

lemma py_int_quarters:
  assumes "0 \<le> k"
  shows "py_int (of_int k / 4) = k div 4"
proof -
  have "\<lfloor>of_int k / (of_int 4 :: rat)\<rfloor> = k div 4" by (rule floor_divide_of_int_eq)
  moreover have "(0::rat) \<le> of_int k / 4" using assms by simp
  ultimately show ?thesis by (simp add: py_int_def)
qed

lemma probability_risk_range:
  assumes "0 \<le> p" "p \<le> 1"
  shows "0 \<le> py_int (fl (p * float_of_int 100))" "py_int (fl (p * float_of_int 100)) \<le> 100"
proof -
  have h: "float_of_int 100 = 100" using float_of_int_exact [of 100] by simp
  have "fl 0 \<le> fl (p * 100)" using assms by (intro fl_mono) simp
  then have "py_int 0 \<le> py_int (fl (p * 100))" by (intro py_int_mono) simp
  then show "0 \<le> py_int (fl (p * float_of_int 100))" using py_int_of_int [of 0] by (simp add: h)
  have "fl (p * 100) \<le> fl (of_int 100)" using assms by (intro fl_mono) simp
  moreover have "fl (of_int 100) = of_int 100" by (rule fl_of_int) simp
  ultimately have "py_int (fl (p * 100)) \<le> py_int (of_int 100)" by (intro py_int_mono) simp
  then show "py_int (fl (p * float_of_int 100)) \<le> 100" by (simp only: py_int_of_int h)
qed

lemma unknown_hyps:
  "\<not> truthy (is_on_blacklist reputation_unknown)"
  "\<not> truthy (is_gsb_threat reputation_unknown)"
  "get_or (virustotal_positives reputation_unknown) 0 \<le> 0"
  "get_or (domain_age domain_unknown) (- 1) \<le> 0" "\<not> truthy (has_ssl domain_unknown)"
  "\<not> truthy (suspicious_tld domain_unknown)" "\<not> truthy (uses_ip domain_unknown)"
  "\<not> truthy (is_reachable network_unreachable)"
  by (simp_all add: reputation_unknown_def domain_unknown_def network_unreachable_def
      get_or_def truthy_def)

text \<open>
  Claim C9.  When every feature record is a failure or empty record (no blacklist hit and
  no detection, unknown domain age, no SSL flag, no suspicious-domain flag, unreachable
  site, empty content and visual features) and no classifier probability is available,
  the aggregation returns the fixed score 55, the sum of the defaults \<open>+10\<close> (unknown
  age), \<open>+25\<close> (no SSL) and \<open>+20\<close> (unreachable).  With a classifier probability
  between 0 and 1 the score is at least 41.  In neither case is it 0.
\<close>

theorem C9_unknown_inputs_baseline:
  assumes rep: "\<not> truthy (is_on_blacklist reputation_f)"
      "\<not> truthy (is_gsb_threat reputation_f)"
      "get_or (virustotal_positives reputation_f) 0 \<le> 0"
    and dom: "get_or (domain_age domain_f) (- 1) \<le> 0" "\<not> truthy (has_ssl domain_f)"
      "\<not> truthy (suspicious_tld domain_f)" "\<not> truthy (uses_ip domain_f)"
    and net: "\<not> truthy (is_reachable network_f)"
  shows "calculate_weighted_risk_score url domain_f content_empty reputation_f visual_empty
           network_f None = (55, ''Medium risk - No SSL certificate; Site unreachable'')
         \<and> (\<forall>p. 0 \<le> p \<and> p \<le> 1 \<longrightarrow>
               41 \<le> fst (calculate_weighted_risk_score url domain_f content_empty
                            reputation_f visual_empty network_f (Some p)))"
proof (intro conjI allI impI)
  note rb = unknown_rule_based [OF rep(3) dom net]
  show "calculate_weighted_risk_score url domain_f content_empty reputation_f visual_empty
          network_f None = (55, ''Medium risk - No SSL certificate; Site unreachable'')"
    using rep(1,2)
    by (simp add: calculate_weighted_risk_score_def rb finish_def clamp_score_def summary_def)
next
  fix p :: rat
  assume p: "0 \<le> p \<and> p \<le> 1"
  note rb = unknown_rule_based [OF rep(3) dom net]
  define m where "m = py_int (fl (p * float_of_int 100))"
  have m: "0 \<le> m" "m \<le> 100" unfolding m_def using p by (simp_all add: probability_risk_range)
  have w: "ml_weight_of (Suc 0) (Suc (Suc 0)) m = fl (25 / 100)" by (simp add: ml_weight_of_def)
  have "blend (fl (25 / 100)) 55 m = py_int (of_int (3 * 55 + m) / 4)"
    using m by (intro blend_quarter_exact) simp_all
  also have "\<dots> = (3 * 55 + m) div 4" using m by (intro py_int_quarters) simp
  finally have b: "41 \<le> blend (fl (25 / 100)) 55 m" using m by simp
  have "fst (calculate_weighted_risk_score url domain_f content_empty reputation_f visual_empty
          network_f (Some p)) = clamp_score (blend (ml_weight_of (Suc 0) (Suc (Suc 0)) m) 55 m)"
    using rep(1,2)
    by (simp add: calculate_weighted_risk_score_def rb finish_def ml_blend_def Let_def m_def)
  then show "41 \<le> fst (calculate_weighted_risk_score url domain_f content_empty reputation_f
                       visual_empty network_f (Some p))"
    using b by (simp only: w) (simp add: clamp_score_def)
qed

theorem C9_unknown_inputs_baseline_witness:
  "calculate_weighted_risk_score ''http://a.test'' domain_unknown content_empty
     reputation_unknown visual_empty network_unreachable None
     = (55, ''Medium risk - No SSL certificate; Site unreachable'')
   \<and> 41 \<le> fst (calculate_weighted_risk_score ''http://a.test'' domain_unknown content_empty
                  reputation_unknown visual_empty network_unreachable (Some (1 / 2)))"
proof -
  have "(0::rat) \<le> 1 / 2 \<and> (1 / 2 :: rat) \<le> 1" by simp
  with C9_unknown_inputs_baseline [OF unknown_hyps, of "''http://a.test''"] show ?thesis by blast
qed

section \<open>Reasons and their score contributions\<close>

lemma unknown_ledger:
  "ledger_total (rule_based domain_unknown content_empty reputation_unknown visual_empty
                   network_unreachable) = 45"
  by (simp add: unknown_rule_based [OF unknown_hyps(3-8)] ledger_total_def)

lemma unknown_unrecorded: "unrecorded_age_change domain_unknown = 10"
  by (simp add: unrecorded_age_change_def domain_unknown_def get_or_def)

text \<open>
  Claim C5, as stated, fails.  The reasons that the function emits are plain strings; the
  ledger pairs each with the score change of the branch that emits it.  For the unknown
  URL the three emitted reasons carry \<open>0 + 25 + 20 = 45\<close>, while the score is 55: the
  ten points for the unknown domain age are added without any reason.
\<close>

theorem C5_reason_sum_counterexample:
  "clamp_score (ledger_total (rule_based domain_unknown content_empty reputation_unknown
                                visual_empty network_unreachable))
     \<noteq> fst (calculate_weighted_risk_score ''http://a.test'' domain_unknown content_empty
              reputation_unknown visual_empty network_unreachable None)"
  by (simp add: unknown_ledger unknown_url_score clamp_score_def)

text \<open>
  Claim C5, amended.  When no blacklist hit returns early, the rule-based score is the sum
  of the score changes attached to the emitted reasons plus the change of the domain-age
  rule in its two branches that emit no reason (\<open>+5\<close> for an age of 91 to 365 days,
  \<open>+10\<close> for an unknown age).  Without a classifier probability the final score is that
  total clamped to \<open>[0, 100]\<close>; with one, that total is the rule-based component fed
  into the blend formula.
\<close>

theorem C5_score_is_ledger_plus_unrecorded:
  assumes "\<not> (truthy (is_on_blacklist reputation_f) \<or> truthy (is_gsb_threat reputation_f))"
  shows "(let a = rule_based domain_f content_f reputation_f visual_f network_f;
              total = ledger_total a + unrecorded_age_change domain_f
          in risk_score a = total
             \<and> fst (calculate_weighted_risk_score url domain_f content_f reputation_f visual_f
                      network_f None) = clamp_score total
             \<and> (\<forall>p. fst (calculate_weighted_risk_score url domain_f content_f reputation_f
                            visual_f network_f (Some p))
                      = clamp_score
                          (let ml_risk = py_int (fl (p * float_of_int 100))
                           in blend (ml_weight_of (length (positive_signals a))
                                       (length (risk_components a)) ml_risk)
                                total ml_risk)))"
  using assms rule_based_facts(4) [of domain_f content_f reputation_f visual_f network_f]
  by (simp add: Let_def calculate_weighted_risk_score_def finish_def ml_blend_def)

theorem C5_score_is_ledger_plus_unrecorded_witness:
  "\<not> (truthy (is_on_blacklist reputation_unknown) \<or> truthy (is_gsb_threat reputation_unknown))
   \<and> fst (calculate_weighted_risk_score ''http://a.test'' domain_unknown content_empty
            reputation_unknown visual_empty network_unreachable None) = clamp_score (45 + 10)"
proof -
  have h: "\<not> (truthy (is_on_blacklist reputation_unknown)
              \<or> truthy (is_gsb_threat reputation_unknown))"
    using unknown_hyps(1,2) by simp
  from C5_score_is_ledger_plus_unrecorded [OF h, of domain_unknown content_empty visual_empty
      network_unreachable "''http://a.test''"] h
  show ?thesis by (simp add: Let_def unknown_ledger unknown_unrecorded)
qed

section \<open>check\_url\_risk: errors and trusted domains\<close>

text \<open>
  Claim C10.  When the URL is not a trusted domain and a call of one of the five analyzers
  raises an exception, check\_url\_risk returns the error report: risk score \<open>-1\<close>,
  outside \<open>[0, 100]\<close>, and status \<open>error\<close>, which is none of legitimate, suspicious
  and risky.
\<close>

theorem C10_analyzer_exception_gives_error_report:
  assumes "\<not> is_trusted_domain env url"
    and "(\<exists>e. domain_analyzer env url = Inl e) \<or> (\<exists>e. content_analyzer env url = Inl e)
         \<or> (\<exists>e. reputation_analyzer env url = Inl e) \<or> (\<exists>e. network_analyzer env url = Inl e)
         \<or> (\<exists>e. visual_analyzer env url = Inl e)"
  shows "rp_risk_score (fst (check_url_risk self env url)) = - 1
         \<and> rp_overall_status (fst (check_url_risk self env url)) = ''error''
         \<and> rp_risk_score (fst (check_url_risk self env url)) < 0
         \<and> rp_overall_status (fst (check_url_risk self env url))
             \<notin> {''legitimate'', ''suspicious'', ''risky''}"
  using assms by (auto simp: check_url_risk_def error_report_def split: sum.splits)

lemma not_trusted_example: "\<not> is_trusted_domain unknown_site_env ''http://a.test/login''"
  by code_simp

theorem C10_analyzer_exception_gives_error_report_witness:
  "\<not> is_trusted_domain unknown_site_env ''http://a.test/login''
   \<and> domain_analyzer unknown_site_env ''http://a.test/login'' = Inl ''whois lookup timed out''
   \<and> rp_risk_score (fst (check_url_risk no_model unknown_site_env ''http://a.test/login'')) = - 1
   \<and> rp_overall_status (fst (check_url_risk no_model unknown_site_env ''http://a.test/login''))
       = ''error''"
proof -
  have d: "domain_analyzer unknown_site_env ''http://a.test/login'' = Inl ''whois lookup timed out''"
    by (simp add: unknown_site_env_def raising_analyzers_def)
  then have "(\<exists>e. domain_analyzer unknown_site_env ''http://a.test/login'' = Inl e)
       \<or> (\<exists>e. content_analyzer unknown_site_env ''http://a.test/login'' = Inl e)
       \<or> (\<exists>e. reputation_analyzer unknown_site_env ''http://a.test/login'' = Inl e)
       \<or> (\<exists>e. network_analyzer unknown_site_env ''http://a.test/login'' = Inl e)
       \<or> (\<exists>e. visual_analyzer unknown_site_env ''http://a.test/login'' = Inl e)"
    by blast
  from C10_analyzer_exception_gives_error_report [OF not_trusted_example this, of no_model] not_trusted_example d
  show ?thesis by simp
qed









section \<open>APK risk scoring: the worked example and the classifier\<close>

lemma checked_exact:
  assumes "\<bar>k\<bar> \<le> 1000"
  shows "checked (of_int k) = Inr (of_int k)"
proof -
  have "fl (of_int k) = of_int k" using assms by (intro fl_of_int) simp
  moreover have "\<bar>of_int k :: rat\<bar> \<le> 1000" using assms by (simp flip: of_int_abs)
  moreover have "(1000 :: rat) < 2 ^ 1024" by simp
  ultimately show ?thesis by (simp add: checked_def finite_float_def)
qed

lemma clean_vt_risk:
  assumes "get_or (positives r) 0 = 0"
  shows "vt_risk_of r = None \<or> vt_risk_of r = Some (Inr 0)"
proof -
  have "checked 0 = Inr 0" using checked_exact [of 0] by simp
  then show ?thesis using assms by (simp add: vt_risk_of_def)
qed

lemma total_risk_35_65:
  assumes "v = None \<or> v = Some (Inr 0)"
  shows "total_risk_of 35 v 65 = Inr 100"
proof -
  have c: "checked (of_int 35) = Inr 35" "checked (of_int 65) = Inr 65"
    "checked (35 + 0) = Inr 35" "checked (35 + 65) = Inr 100"
    using checked_exact [of 35] checked_exact [of 65] checked_exact [of 100] by simp_all
  have "py_int 100 = 100" using py_int_of_int [of 100] by simp
  then show ?thesis using assms c by (auto simp: total_risk_of_def)
qed

lemma sms_weights:
  "permission_weight ''android.permission.READ_SMS'' = 15"
  "permission_weight ''android.permission.SEND_SMS'' = 20"
  by (simp_all add: permission_weight_def DANGEROUS_PERMISSIONS_def)

lemma sms_and_clone_risk:
  assumes md: "metadata results = Some md" "permissions md = Some ps"
    and perms: "dangerous_found ps = [''android.permission.READ_SMS'',
                                      ''android.permission.SEND_SMS'']
                \<or> dangerous_found ps = [''android.permission.SEND_SMS'',
                                         ''android.permission.READ_SMS'']"
    and vt: "get_or (positives (get_or (virustotal results) no_virustotal)) 0 = 0"
    and clone: "clone_analysis results = Some [w]" "warning_type w = ''signature_mismatch''"
  shows "(case calculate_risk results of
            Inl e \<Rightarrow> False
          | Inr (score, lvl, total_risk_score, rs) \<Rightarrow>
              total_risk_score = 100 \<and> score = 0 \<and> lvl = critical_risk)"
proof -
  have p: "permission_risk_of ps = 35"
    using perms by (auto simp: permission_risk_of_def sms_weights)
  have h: "heuristic_risk_of [w] = 65" using clone(2) by (simp add: heuristic_risk_of_def warning_weight_def)
  note v = clean_vt_risk [OF vt]
  have "total_risk_of 35 (vt_risk_of (get_or (virustotal results) no_virustotal)) 65 = Inr 100"
    using v by (rule total_risk_35_65)
  then show ?thesis
    using md clone(1) p h by (simp add: calculate_risk_def Let_def get_or_def confidence_level_of_def)
qed

text \<open>
  Claim C7.  An APK whose dangerous permissions are exactly READ\_SMS and SEND\_SMS, whose
  VirusTotal report has no positive detection and whose clone analysis holds exactly one
  signature-mismatch warning: calculate\_risk raises no exception and returns the total
  risk score \<open>15 + 20 + 65 = 100\<close>, the confidence score 0 and the label of the lowest
  band, critical risk.
\<close>

theorem C7_apk_worked_example:
  assumes md: "metadata results = Some md" "permissions md = Some ps"
    and perms: "dangerous_found ps = [''android.permission.READ_SMS'',
                                      ''android.permission.SEND_SMS'']
                \<or> dangerous_found ps = [''android.permission.SEND_SMS'',
                                         ''android.permission.READ_SMS'']"
    and vt: "get_or (positives (get_or (virustotal results) no_virustotal)) 0 = 0"
    and clone: "clone_analysis results = Some [w]" "warning_type w = ''signature_mismatch''"
  shows "(case calculate_risk results of
            Inl e \<Rightarrow> False
          | Inr (score, lvl, total_risk_score, rs) \<Rightarrow>
              total_risk_score = 100 \<and> score = 0 \<and> lvl = critical_risk)"
  using assms by (rule sms_and_clone_risk)

lemma sms_dangerous:
  "dangerous_found [''android.permission.INTERNET'', ''android.permission.READ_SMS'',
                    ''android.permission.SEND_SMS'']
     = [''android.permission.READ_SMS'', ''android.permission.SEND_SMS'']"
  by (simp add: dangerous_found_def DANGEROUS_PERMISSIONS_def)

theorem C7_apk_worked_example_witness:
  "(case calculate_risk sms_clone_results of
      Inl e \<Rightarrow> False
    | Inr (score, lvl, total_risk_score, rs) \<Rightarrow>
        total_risk_score = 100 \<and> score = 0 \<and> lvl = critical_risk)
   \<and> warning_type signature_warning = ''signature_mismatch''"
proof -
  have md: "metadata sms_clone_results = Some sms_metadata"
    "permissions sms_metadata = Some [''android.permission.INTERNET'',
        ''android.permission.READ_SMS'', ''android.permission.SEND_SMS'']"
    by (simp_all add: sms_clone_results_def sms_metadata_def)
  have vt: "get_or (positives (get_or (virustotal sms_clone_results) no_virustotal)) 0 = 0"
    by (simp add: sms_clone_results_def clean_virustotal_def get_or_def)
  have cl: "clone_analysis sms_clone_results = Some [signature_warning]"
    "warning_type signature_warning = ''signature_mismatch''"
    by (simp_all add: sms_clone_results_def signature_warning_def)
  from C7_apk_worked_example [OF md disjI1 [OF sms_dangerous] vt cl] cl(2) show ?thesis by simp
qed

text \<open>
  Claim C8.  The APK classifier never enters the risk score.  For the same file, whatever
  the module globals MODEL and FEATURES are (no model, or any model with any output),
  analyze\_apk raises the same exception, or returns the same error, or returns two
  reports with the same confidence score, confidence level and risk score that differ at
  most in the field ai\_analysis.
\<close>

theorem C8_apk_classifier_noninterference:
  "(case (analyze_apk clf1 inp file_path, analyze_apk clf2 inp file_path) of
      (Inr (Inr r1), Inr (Inr r2)) \<Rightarrow>
         confidence_score r1 = confidence_score r2
         \<and> confidence_level r1 = confidence_level r2
         \<and> details_risk_score r1 = details_risk_score r2
         \<and> r1\<lparr>details_ai_analysis := details_ai_analysis r2\<rparr> = r2
    | (Inr (Inl e1), Inr (Inl e2)) \<Rightarrow> e1 = e2
    | (Inl x1, Inl x2) \<Rightarrow> x1 = x2
    | _ \<Rightarrow> False)"
  by (simp add: analyze_apk_def Let_def split: option.splits prod.splits sum.splits)

lemma sms_ai_analysis:
  "ai_type (ai_analysis_of no_classifier sms_metadata) = ''Not Available''"
  "ai_type (ai_analysis_of benign_classifier sms_metadata) = ''Likely Benign''"
  by code_simp+

lemma sms_apk_risk:
  "\<exists>rs. calculate_risk \<lparr>metadata = Some sms_metadata, virustotal = Some clean_virustotal,
                          clone_analysis = Some [signature_warning]\<rparr>
          = Inr (0, critical_risk, 100, rs)"
proof -
  have "(case calculate_risk sms_clone_results of
            Inl e \<Rightarrow> False
          | Inr (score, lvl, total_risk_score, rs) \<Rightarrow>
              total_risk_score = 100 \<and> score = 0 \<and> lvl = critical_risk)"
  proof (rule sms_and_clone_risk)
    show "metadata sms_clone_results = Some sms_metadata"
      by (simp add: sms_clone_results_def)
    show "permissions sms_metadata = Some [''android.permission.INTERNET'',
        ''android.permission.READ_SMS'', ''android.permission.SEND_SMS'']"
      by (simp add: sms_metadata_def)
    show "dangerous_found [''android.permission.INTERNET'', ''android.permission.READ_SMS'',
                    ''android.permission.SEND_SMS'']
            = [''android.permission.READ_SMS'', ''android.permission.SEND_SMS'']
          \<or> dangerous_found [''android.permission.INTERNET'', ''android.permission.READ_SMS'',
                    ''android.permission.SEND_SMS'']
            = [''android.permission.SEND_SMS'', ''android.permission.READ_SMS'']"
      using sms_dangerous by simp
    show "get_or (positives (get_or (virustotal sms_clone_results) no_virustotal)) 0 = 0"
      by (simp add: sms_clone_results_def clean_virustotal_def get_or_def)
    show "clone_analysis sms_clone_results = Some [signature_warning]"
      by (simp add: sms_clone_results_def)
    show "warning_type signature_warning = ''signature_mismatch''"
      by (simp add: signature_warning_def)
  qed
  then show ?thesis by (auto simp: sms_clone_results_def split: sum.splits)
qed

lemma sms_apk_reports:
  "\<exists>r. analyze_apk clf sms_apk ''a.apk'' = Inr (Inr r)
        \<and> details_ai_analysis r = ai_analysis_of clf sms_metadata"
proof -
  obtain rs where "calculate_risk \<lparr>metadata = Some sms_metadata,
      virustotal = Some clean_virustotal, clone_analysis = Some [signature_warning]\<rparr>
        = Inr (0, critical_risk, 100, rs)"
    using sms_apk_risk by blast
  moreover have "md_error sms_metadata = None" by (simp add: sms_metadata_def)
  ultimately show ?thesis by (simp add: analyze_apk_def sms_apk_def Let_def)
qed

theorem C8_apk_classifier_noninterference_witness:
  "(\<exists>r1 r2. analyze_apk no_classifier sms_apk ''a.apk'' = Inr (Inr r1)
       \<and> analyze_apk benign_classifier sms_apk ''a.apk'' = Inr (Inr r2)
       \<and> ai_type (details_ai_analysis r1) = ''Not Available''
       \<and> ai_type (details_ai_analysis r2) = ''Likely Benign''
       \<and> confidence_score r1 = confidence_score r2
       \<and> confidence_level r1 = confidence_level r2
       \<and> details_risk_score r1 = details_risk_score r2)"
proof -
  obtain r1 where r1: "analyze_apk no_classifier sms_apk ''a.apk'' = Inr (Inr r1)"
    "details_ai_analysis r1 = ai_analysis_of no_classifier sms_metadata"
    using sms_apk_reports [of no_classifier] by blast
  obtain r2 where r2: "analyze_apk benign_classifier sms_apk ''a.apk'' = Inr (Inr r2)"
    "details_ai_analysis r2 = ai_analysis_of benign_classifier sms_metadata"
    using sms_apk_reports [of benign_classifier] by blast
  from C8_apk_classifier_noninterference [of no_classifier sms_apk "''a.apk''"
      benign_classifier] r1 r2 sms_ai_analysis
  show ?thesis by simp
qed

section \<open>How far the classifier moves the score of a risky URL\<close>

lemma ml_risk_09: "py_int (fl (fl (9 / 10) * float_of_int 100)) = 90"
  by code_simp

lemma ml_risk_01: "py_int (fl (fl (1 / 10) * float_of_int 100)) = 10"
  by code_simp

lemma W15_times_90: "fl (fl (15 / 100) * float_of_int 90) = 27 / 2"
  by code_simp

lemma W15_times_10: "fl (fl (15 / 100) * float_of_int 10) = 3 / 2"
  by code_simp

lemma blend_15_30_10: "blend (fl (15 / 100)) 30 10 = 27"
  by code_simp

lemma A15_fine: "891289 / 1048576 \<le> fl (1 - fl (15 / 100))"
  by code_simp

lemma fl_halves: "\<bar>k\<bar> < 2 ^ 53 \<Longrightarrow> fl (of_int k / 2) = of_int k / 2"
  using fl_exact [of k 1] by simp

lemma clamp_score_diff:
  assumes "b - c \<le> d" "0 \<le> d"
  shows "clamp_score b - clamp_score c \<le> d"
  using assms by (simp add: clamp_score_def)

text \<open>the rounded product of the rule-based score with the weight 0.85\<close>

lemma scaled_score_range:
  assumes "- 30 \<le> s" "s \<le> 290"
  shows "- 30 \<le> fl (fl (1 - fl (15 / 100)) * of_int s)"
    and "fl (fl (1 - fl (15 / 100)) * of_int s) \<le> 290"
proof -
  define a where "a = fl (1 - fl (15 / 100))"
  have a: "3 / 4 \<le> a" "a \<le> 7 / 8" unfolding a_def by (rule A15_bounds)+
  have r: "- 30 \<le> a * of_int s \<and> a * of_int s \<le> 290"
  proof (cases "0 \<le> s")
    case True
    then have "0 \<le> a * of_int s" using a by simp
    moreover have "a * of_int s \<le> 1 * of_int s" using a True by (intro mult_right_mono) simp_all
    ultimately show ?thesis using assms by simp
  next
    case False
    then have "of_int s * a \<le> of_int s * 0" using a by (intro mult_left_mono_neg) simp_all
    moreover have "of_int s * 1 \<le> of_int s * a" using a False by (intro mult_left_mono_neg) simp_all
    ultimately show ?thesis using assms by (simp add: mult.commute)
  qed
  have "fl (of_int (- 30)) \<le> fl (a * of_int s)" using r by (intro fl_mono) simp
  moreover have "fl (of_int (- 30)) = of_int (- 30)" by (rule fl_of_int) simp
  ultimately show "- 30 \<le> fl (fl (1 - fl (15 / 100)) * of_int s)" by (simp add: a_def)
  have "fl (a * of_int s) \<le> fl (of_int 290)" using r by (intro fl_mono) simp
  moreover have "fl (of_int 290) = of_int 290" by (rule fl_of_int) simp
  ultimately show "fl (fl (1 - fl (15 / 100)) * of_int s) \<le> 290" by (simp add: a_def)
qed

lemma blend_15_form:
  assumes "\<bar>s\<bar> \<le> 1000"
  shows "blend (fl (15 / 100)) s 90 = py_int (fl (fl (fl (1 - fl (15 / 100)) * of_int s) + 27 / 2))"
    and "blend (fl (15 / 100)) s 10 = py_int (fl (fl (fl (1 - fl (15 / 100)) * of_int s) + 3 / 2))"
proof -
  have fs: "float_of_int s = of_int s" using assms by (simp add: float_of_int_exact)
  show "blend (fl (15 / 100)) s 90 = py_int (fl (fl (fl (1 - fl (15 / 100)) * of_int s) + 27 / 2))"
    by (simp only: blend_def fs W15_times_90)
  show "blend (fl (15 / 100)) s 10 = py_int (fl (fl (fl (1 - fl (15 / 100)) * of_int s) + 3 / 2))"
    by (simp only: blend_def fs W15_times_10)
qed

text \<open>both runs with weight 0.15\<close>

lemma both_low_weight:
  assumes s: "- 30 \<le> s" "s \<le> 290"
  shows "\<bar>clamp_score (blend (fl (15 / 100)) s 90) - clamp_score (blend (fl (15 / 100)) s 10)\<bar>
           \<le> 13"
proof -
  define X where "X = fl (fl (1 - fl (15 / 100)) * of_int s)"
  define n where "n = \<lfloor>X\<rfloor>"
  have X: "- 30 \<le> X" "X \<le> 290" unfolding X_def using s by (rule scaled_score_range)+
  have n: "- 30 \<le> n" "n \<le> 290" unfolding n_def using X by (simp_all add: le_floor_iff floor_le_iff)
  have nX: "of_int n \<le> X" "X < of_int n + 1"
    unfolding n_def using floor_correct [of X] by simp_all
  have b9: "blend (fl (15 / 100)) s 90 = py_int (fl (X + 27 / 2))"
    and b1: "blend (fl (15 / 100)) s 10 = py_int (fl (X + 3 / 2))"
    unfolding X_def using s by (intro blend_15_form, simp)+
  have lo: "blend (fl (15 / 100)) s 10 \<le> blend (fl (15 / 100)) s 90"
    unfolding b9 b1 by (intro py_int_mono fl_mono) simp
  have up: "blend (fl (15 / 100)) s 90 - 13 \<le> blend (fl (15 / 100)) s 10
            \<or> blend (fl (15 / 100)) s 90 \<le> 13"
  proof (cases "0 \<le> n")
    case True
    have "X + 27 / 2 \<le> of_int (2 * n + 29) / 2" using nX by simp
    then have "fl (X + 27 / 2) \<le> fl (of_int (2 * n + 29) / 2)" by (rule fl_mono)
    moreover have "fl (of_int (2 * n + 29) / 2) = of_int (2 * n + 29) / 2"
      using n by (intro fl_halves) simp
    ultimately have "py_int (fl (X + 27 / 2)) \<le> py_int (of_int (2 * n + 29) / 2)"
      by (intro py_int_mono) simp
    moreover have "py_int (of_int (2 * n + 29) / 2) = n + 14"
    proof -
      have "\<lfloor>of_int (2 * n + 29) / (of_int 2 :: rat)\<rfloor> = (2 * n + 29) div 2"
        by (rule floor_divide_of_int_eq)
      moreover have "(0::rat) \<le> of_int (2 * n + 29) / 2" using True by simp
      ultimately show ?thesis by (simp add: py_int_def)
    qed
    ultimately have u: "blend (fl (15 / 100)) s 90 \<le> n + 14" unfolding b9 by simp
    have "of_int (2 * n + 3) / 2 \<le> X + 3 / 2" using nX by simp
    then have "fl (of_int (2 * n + 3) / 2) \<le> fl (X + 3 / 2)" by (rule fl_mono)
    moreover have "fl (of_int (2 * n + 3) / 2) = of_int (2 * n + 3) / 2"
      using n by (intro fl_halves) simp
    ultimately have "py_int (of_int (2 * n + 3) / 2) \<le> py_int (fl (X + 3 / 2))"
      by (intro py_int_mono) simp
    moreover have "py_int (of_int (2 * n + 3) / 2) = n + 1"
    proof -
      have "\<lfloor>of_int (2 * n + 3) / (of_int 2 :: rat)\<rfloor> = (2 * n + 3) div 2"
        by (rule floor_divide_of_int_eq)
      moreover have "(0::rat) \<le> of_int (2 * n + 3) / 2" using True by simp
      ultimately show ?thesis by (simp add: py_int_def)
    qed
    ultimately have "n + 1 \<le> blend (fl (15 / 100)) s 10" unfolding b1 by simp
    then show ?thesis using u by simp
  next
    case False
    then have "X < 0" using nX by simp
    then have "X + 27 / 2 \<le> of_int 27 / 2" by simp
    then have "fl (X + 27 / 2) \<le> fl (of_int 27 / 2)" by (rule fl_mono)
    moreover have "fl (of_int 27 / 2) = of_int 27 / 2" by (rule fl_halves) simp
    ultimately have "py_int (fl (X + 27 / 2)) \<le> py_int (27 / 2)" by (intro py_int_mono) simp
    moreover have "py_int (27 / 2) = 13" by code_simp
    ultimately show ?thesis unfolding b9 by simp
  qed
  show ?thesis using lo up by (simp add: clamp_score_def) linarith
qed

text \<open>weight 0.25 for the probability 0.9, weight 0.15 for the probability 0.1\<close>

lemma mixed_weight:
  assumes s: "30 \<le> s" "s \<le> 290"
  shows "\<bar>clamp_score (blend (fl (25 / 100)) s 90) - clamp_score (blend (fl (15 / 100)) s 10)\<bar>
           \<le> 18"
proof -
  define X where "X = fl (fl (1 - fl (15 / 100)) * of_int s)"
  define b9 where "b9 = blend (fl (25 / 100)) s 90"
  define b1 where "b1 = blend (fl (15 / 100)) s 10"
  have "b9 = py_int (of_int (3 * s + 90) / 4)"
    unfolding b9_def using s by (intro blend_quarter_exact) simp_all
  also have "\<dots> = (3 * s + 90) div 4" using s by (intro py_int_quarters) simp
  finally have b9: "b9 = (3 * s + 90) div 4" .
  have b1: "b1 = py_int (fl (X + 3 / 2))"
    unfolding b1_def X_def using s by (intro blend_15_form) simp
  \<comment> \<open>the low-weight run is not more than 18 above\<close>
  have "fl (1 - fl (15 / 100)) * of_int s \<le> 7 / 8 * of_int s"
    using A15_bounds(2) s by (intro mult_right_mono) simp_all
  then have "X \<le> fl (7 / 8 * of_int s)" unfolding X_def by (rule fl_mono)
  also have "\<dots> = 7 / 8 * of_int s" using s by (intro fl_seven_eighths) simp
  finally have "X + 3 / 2 \<le> of_int (7 * s + 12) / 8" by simp
  then have "fl (X + 3 / 2) \<le> fl (of_int (7 * s + 12) / 8)" by (rule fl_mono)
  moreover have "fl (of_int (7 * s + 12) / 8) = of_int (7 * s + 12) / 8"
    using s by (intro fl_eighths) simp
  ultimately have "b1 \<le> py_int (of_int (7 * s + 12) / 8)"
    unfolding b1 by (intro py_int_mono) simp
  moreover have "py_int (of_int (7 * s + 12) / 8) = (7 * s + 12) div 8"
  proof -
    have "\<lfloor>of_int (7 * s + 12) / (of_int 8 :: rat)\<rfloor> = (7 * s + 12) div 8"
      by (rule floor_divide_of_int_eq)
    moreover have "(0::rat) \<le> of_int (7 * s + 12) / 8" using s by simp
    ultimately show ?thesis by (simp add: py_int_def)
  qed
  ultimately have up: "b1 - b9 \<le> 18" using b9 s by simp
  \<comment> \<open>the normal-weight run is not more than 18 above\<close>
  have down: "b9 - b1 \<le> 18"
  proof (cases "s = 30")
    case True
    then show ?thesis using blend_15_30_10 by (simp add: b9 b1_def)
  next
    case False
    then have s31: "31 \<le> s" using s by simp
    have "891289 / 1048576 * of_int s \<le> fl (1 - fl (15 / 100)) * of_int s"
      using A15_fine s by (intro mult_right_mono) simp_all
    then have "fl (891289 / 1048576 * of_int s) \<le> X" unfolding X_def by (rule fl_mono)
    moreover have "fl (891289 / 1048576 * of_int s) = 891289 / 1048576 * of_int s"
    proof -
      have e: "891289 / 1048576 * of_int s = (of_int (891289 * s) / 2 ^ 20 :: rat)" by simp
      have "fl (of_int (891289 * s) / 2 ^ 20) = of_int (891289 * s) / 2 ^ 20"
        using s by (intro fl_exact) simp_all
      then show ?thesis by (simp only: e)
    qed
    ultimately have "of_int (891289 * s + 1572864) / 2 ^ 20 \<le> X + 3 / 2" by simp
    then have "fl (of_int (891289 * s + 1572864) / 2 ^ 20) \<le> fl (X + 3 / 2)" by (rule fl_mono)
    moreover have "fl (of_int (891289 * s + 1572864) / 2 ^ 20)
                     = of_int (891289 * s + 1572864) / 2 ^ 20"
      using s by (intro fl_exact) simp_all
    ultimately have "py_int (of_int (891289 * s + 1572864) / 2 ^ 20) \<le> b1"
      unfolding b1 by (intro py_int_mono) simp
    moreover have "py_int (of_int (891289 * s + 1572864) / 2 ^ 20)
                     = (891289 * s + 1572864) div 2 ^ 20"
    proof -
      have "\<lfloor>of_int (891289 * s + 1572864) / (of_int (2 ^ 20) :: rat)\<rfloor>
              = (891289 * s + 1572864) div 2 ^ 20"
        by (rule floor_divide_of_int_eq)
      moreover have "(0::rat) \<le> of_int (891289 * s + 1572864) / 2 ^ 20" using s by simp
      ultimately show ?thesis by (simp add: py_int_def)
    qed
    ultimately have "(891289 * s + 1572864) div 1048576 \<le> b1" by simp
    then show ?thesis using s31 b9 by simp
  qed
  have "clamp_score b9 - clamp_score b1 \<le> 18" using down by (rule clamp_score_diff) simp
  moreover have "clamp_score b1 - clamp_score b9 \<le> 18" using up by (rule clamp_score_diff) simp
  ultimately show ?thesis unfolding b9_def b1_def by simp
qed

lemma final_score_09:
  "final_score s n_risk n_positive (Some (fl (9 / 10)))
     = clamp_score (blend (ml_weight_of n_positive n_risk 90) s 90)"
  by (simp only: final_score_def option.case Let_def ml_risk_09)

lemma final_score_01:
  "final_score s n_risk n_positive (Some (fl (1 / 10)))
     = clamp_score (blend (ml_weight_of n_positive n_risk 10) s 10)"
  by (simp only: final_score_def option.case Let_def ml_risk_01)

lemma weights_with_risk_evidence:
  assumes "3 \<le> n_risk"
  shows "ml_weight_of n_positive n_risk 10 = fl (15 / 100)"
    and "ml_weight_of n_positive n_risk 90
           = (if 3 \<le> n_positive then fl (15 / 100) else fl (25 / 100))"
  using assms by (simp_all add: ml_weight_of_def)

lemma example_accumulator:
  "rule_based domain_established content_suspicious reputation_one_detection visual_similar
     network_one_header
   = \<lparr>risk_score = 30,
      risk_components = [''VirusTotal: 1 detection(s)'', ''Suspicious content patterns'',
                         ''Suspicious keyword(s): login'',
                         ''Some similarity to phishing patterns''],
      positive_signals = [''Established domain (5 years)'', ''Valid SSL certificate''],
      ledger = [(''VirusTotal: 1 detection(s)'', 20), (''Established domain (5 years)'', - 15),
                (''Valid SSL certificate'', 0), (''Suspicious content patterns'', 10),
                (''Suspicious keyword(s): login'', 5),
                (''Some similarity to phishing patterns'', 10)]\<rparr>"
  by code_simp

lemma example_scores:
  "fst (calculate_weighted_risk_score ''http://a.test'' domain_established content_suspicious
          reputation_one_detection visual_similar network_one_header (Some (fl (9 / 10)))) = 45"
  "fst (calculate_weighted_risk_score ''http://a.test'' domain_established content_suspicious
          reputation_one_detection visual_similar network_one_header (Some (fl (1 / 10)))) = 27"
  by code_simp+

text \<open>
  Claim C4, as stated, fails.  The example URL has four risk components and two positive
  signals, with rule-based score 30.  With the probability 0.1 the classifier risk 10 is
  below 40 and the weight is 0.15: the score is \<open>int(0.85 * 30 + 0.15 * 10) = 27\<close>.
  With the probability 0.9 the classifier risk 90 is not below 40, and there are fewer than
  three positive signals, so the weight stays 0.25: the score is
  \<open>int(0.75 * 30 + 0.25 * 90) = 45\<close>.  The difference is 18.
\<close>

theorem C4_classifier_swing_counterexample:
  "4 \<le> length (risk_components (rule_based domain_established content_suspicious
                   reputation_one_detection visual_similar network_one_header))
   \<and> \<not> \<bar>fst (calculate_weighted_risk_score ''http://a.test'' domain_established
                  content_suspicious reputation_one_detection visual_similar
                  network_one_header (Some (fl (9 / 10))))
            - fst (calculate_weighted_risk_score ''http://a.test'' domain_established
                     content_suspicious reputation_one_detection visual_similar
                     network_one_header (Some (fl (1 / 10))))\<bar> \<le> 15"
  by (simp add: example_accumulator example_scores)

text \<open>
  Claim C4, amended.  For every input with at least four risk components, the scores for
  the classifier probabilities 0.9 and 0.1 differ by at most 18.  The weight is 0.15 for
  the probability 0.1; for the probability 0.9 it is 0.15 only when there are at least
  three positive signals, and 0.25 otherwise.
\<close>

theorem C4_classifier_swing_at_most_18:
  assumes "4 \<le> length (risk_components
                        (rule_based domain_f content_f reputation_f visual_f network_f))"
  shows "\<bar>fst (calculate_weighted_risk_score url domain_f content_f reputation_f visual_f
                network_f (Some (fl (9 / 10))))
          - fst (calculate_weighted_risk_score url domain_f content_f reputation_f visual_f
                   network_f (Some (fl (1 / 10))))\<bar> \<le> 18"
proof (cases "truthy (is_on_blacklist reputation_f) \<or> truthy (is_gsb_threat reputation_f)")
  case True
  then show ?thesis by (simp add: calculate_weighted_risk_score_def)
next
  case False
  define a where "a = rule_based domain_f content_f reputation_f visual_f network_f"
  define s where "s = risk_score a"
  define n_risk where "n_risk = length (risk_components a)"
  define n_positive where "n_positive = length (positive_signals a)"
  have r: "4 \<le> n_risk" using assms by (simp add: n_risk_def a_def)
  have s: "- 30 \<le> s" "s \<le> 290" unfolding s_def a_def by (rule rule_based_facts)+
  have "10 \<le> phi a" unfolding a_def by (rule rule_based_facts)
  then have p: "10 * int n_risk - 10 * int n_positive + 10 \<le> s"
    by (simp add: phi_def s_def n_risk_def n_positive_def)
  have c: "fst (calculate_weighted_risk_score url domain_f content_f reputation_f visual_f
                  network_f ml) = final_score s n_risk n_positive ml" for ml
    using False
    by (simp add: calculate_weighted_risk_score_def finish_final_score a_def s_def n_risk_def
        n_positive_def)
  have w1: "ml_weight_of n_positive n_risk 10 = fl (15 / 100)"
    using r by (intro weights_with_risk_evidence) simp
  have w9: "ml_weight_of n_positive n_risk 90
              = (if 3 \<le> n_positive then fl (15 / 100) else fl (25 / 100))"
    using r by (intro weights_with_risk_evidence) simp
  show ?thesis
  proof (cases "3 \<le> n_positive")
    case True
    have "\<bar>clamp_score (blend (fl (15 / 100)) s 90) - clamp_score (blend (fl (15 / 100)) s 10)\<bar>
            \<le> 13"
      using s by (rule both_low_weight)
    then show ?thesis using True by (simp only: c final_score_09 final_score_01 w1 w9 if_True)
  next
    case False
    then have "30 \<le> s" using p r by simp
    then have "\<bar>clamp_score (blend (fl (25 / 100)) s 90)
                - clamp_score (blend (fl (15 / 100)) s 10)\<bar> \<le> 18"
      using s by (intro mixed_weight)
    then show ?thesis using False by (simp only: c final_score_09 final_score_01 w1 w9 if_False)
  qed
qed

theorem C4_classifier_swing_at_most_18_witness:
  "4 \<le> length (risk_components (rule_based domain_established content_suspicious
                   reputation_one_detection visual_similar network_one_header))
   \<and> \<bar>fst (calculate_weighted_risk_score ''http://a.test'' domain_established
               content_suspicious reputation_one_detection visual_similar
               network_one_header (Some (fl (9 / 10))))
         - fst (calculate_weighted_risk_score ''http://a.test'' domain_established
                  content_suspicious reputation_one_detection visual_similar
                  network_one_header (Some (fl (1 / 10))))\<bar> = 18"
proof -
  have h: "4 \<le> length (risk_components (rule_based domain_established content_suspicious
                   reputation_one_detection visual_similar network_one_header))"
    by (simp add: example_accumulator)
  from C4_classifier_swing_at_most_18 [OF h, of "''http://a.test''"] h
  show ?thesis by (simp add: example_scores)
qed

end
